theory Spec2Isabelle
  imports Main "HOL-Library.Word"
begin

unbundle bit_operations_syntax

section \<open>JavaScript numbers, bytes and the bitwise operators\<close>

text \<open>
  hartnet.js computes with JavaScript numbers. The numbers that occur are integers far
  below \<open>2^53\<close>, so \<open>+\<close>, \<open>*\<close>, \<open>%\<close> and the comparisons are those of \<open>int\<close>. The
  bitwise operators \<open>>>\<close>, \<open><<\<close>, \<open>&\<close> and \<open>|\<close> first convert their operands to
  signed 32-bit integers (ToInt32), take the shift count modulo 32, and return a signed
  32-bit integer.  A \<open>Buffer\<close> is a list of bytes; an IPv4 address, written as a
  dotted quad in the source, is the 32-bit number that \<open>ip2long\<close> gives it.
\<close>

type_synonym byte = "8 word"
type_synonym ipv4 = "32 word"

definition ToInt32 :: "int \<Rightarrow> int" where
  "ToInt32 x = signed_take_bit 31 x"

definition js_shr :: "int \<Rightarrow> int \<Rightarrow> int" where
  "js_shr x n = drop_bit (nat (n mod 32)) (ToInt32 x)"

definition js_shl :: "int \<Rightarrow> int \<Rightarrow> int" where
  "js_shl x n = ToInt32 (push_bit (nat (n mod 32)) (ToInt32 x))"

definition js_and :: "int \<Rightarrow> int \<Rightarrow> int" where
  "js_and x y = ToInt32 x AND ToInt32 y"

definition js_or :: "int \<Rightarrow> int \<Rightarrow> int" where
  "js_or x y = ToInt32 x OR ToInt32 y"

text \<open>\<open>parseInt(i)\<close> of the four parts of \<open>ip.split('.')\<close>.\<close>

definition octets :: "ipv4 \<Rightarrow> int list" where
  "octets a = [uint (drop_bit 24 a) mod 256, uint (drop_bit 16 a) mod 256,
               uint (drop_bit 8 a) mod 256, uint a mod 256]"

definition dotted :: "nat \<Rightarrow> nat \<Rightarrow> nat \<Rightarrow> nat \<Rightarrow> ipv4" where
  "dotted a b c d = word_of_nat (((a * 256 + b) * 256 + c) * 256 + d)"

text \<open>
  What a \<open>throw\<close> carries. Only \<open>hartnet\<close> has a method \<open>handleError\<close>; the classes
  \<open>Sender\<close> (which extends nothing) and \<open>Receiver\<close> (which extends \<open>EventEmitter\<close>)
  have none, so that the expression \<open>this.handleError(new Error(...))\<close> inside them
  evaluates its argument and then throws a \<open>TypeError\<close>, because the callee is
  \<open>undefined\<close>. This happens whether or not an \<open>errFunc\<close> was configured.
\<close>

datatype error = TypeError string | Error string

definition handleError_missing :: "error \<Rightarrow> error" where
  "handleError_missing err = TypeError ''this.handleError is not a function''"

definition Invalid_Port_Address :: error where
  "Invalid_Port_Address =
     Error ''Invalid Port Address: net * subnet * universe must be smaller than 32768''"

definition Channel_must_be :: error where
  "Channel_must_be = Error ''Channel must be between 0 and 512''"

definition Value_must_be :: error where
  "Value_must_be = Error ''Value must be between 0 and 255''"

text \<open>What \<open>Buffer.from(false)\<close> throws.\<close>

definition buffer_from_failed :: error where
  "buffer_from_failed =
     TypeError ''The first argument must be of type string or an instance of Buffer''"

section \<open>The library jspack\<close>

text \<open>
  \<open>jspack.Pack(fmt, values)\<close> and \<open>jspack.Unpack(fmt, buffer, offset)\<close> of the npm
  package jspack, for the three format characters the engine uses, in network byte
  order (the leading \<open>!\<close>). A format string such as \<open>'!7sBHH4B'\<close> is written as the
  list \<open>[Fs 7, FB 1, FH 1, FH 1, FB 4]\<close>. \<open>Pack\<close> clamps a number to the range of its
  field, pads a string with zero bytes, and returns \<open>false\<close> (here \<open>None\<close>) when the
  values run out; \<open>Unpack\<close> returns \<open>undefined\<close> (here \<open>None\<close>) when the buffer is
  shorter than the format.
\<close>

datatype jsval = Str string | Num int

datatype fmt = Fs nat | FB nat | FH nat

definition clampv :: "int \<Rightarrow> int \<Rightarrow> int" where
  "clampv hi v = (if v < 0 then 0 else if v > hi then hi else v)"

fun enB :: "jsval \<Rightarrow> byte list" where
  "enB (Num v) = [word_of_int (clampv 255 v)]"
| "enB (Str s) = [0]"

fun enH :: "jsval \<Rightarrow> byte list" where
  "enH (Num v) = [word_of_int (clampv 65535 v div 256), word_of_int (clampv 65535 v)]"
| "enH (Str s) = [0, 0]"

definition enS :: "nat \<Rightarrow> string \<Rightarrow> byte list" where
  "enS n s = map of_char (take n s) @ replicate (n - length s) 0"

fun PackTo :: "fmt list \<Rightarrow> jsval list \<Rightarrow> byte list option" where
  "PackTo [] vs = Some []"
| "PackTo (Fs n # fs) vs =
     (case vs of
        Str v # vs' \<Rightarrow> map_option ((@) (enS n v)) (PackTo fs vs')
      | _ \<Rightarrow> None)"
| "PackTo (FB n # fs) vs =
     (if length vs < n then None
      else map_option ((@) (concat (map enB (take n vs)))) (PackTo fs (drop n vs)))"
| "PackTo (FH n # fs) vs =
     (if length vs < n then None
      else map_option ((@) (concat (map enH (take n vs)))) (PackTo fs (drop n vs)))"

definition Pack :: "fmt list \<Rightarrow> jsval list \<Rightarrow> byte list option" where
  "Pack f vs = PackTo f vs"

definition deS :: "byte list \<Rightarrow> jsval" where
  "deS bs = Str (map (\<lambda>b. char_of (unat b)) bs)"

fun deHs :: "byte list \<Rightarrow> jsval list" where
  "deHs (hi # lo # bs) = Num (uint hi * 256 + uint lo) # deHs bs"
| "deHs _ = []"

fun Unpack :: "fmt list \<Rightarrow> byte list \<Rightarrow> nat \<Rightarrow> jsval list option" where
  "Unpack [] a p = Some []"
| "Unpack (Fs n # fs) a p =
     (if p + n > length a then None
      else map_option ((#) (deS (take n (drop p a)))) (Unpack fs a (p + n)))"
| "Unpack (FB n # fs) a p =
     (if p + n > length a then None
      else map_option ((@) (map (\<lambda>b. Num (uint b)) (take n (drop p a)))) (Unpack fs a (p + n)))"
| "Unpack (FH n # fs) a p =
     (if p + n * 2 > length a then None
      else map_option ((@) (deHs (take (n * 2) (drop p a)))) (Unpack fs a (p + n * 2)))"

text \<open>
  \<open>parseInt(jspack.Unpack('B', msg, p), 10)\<close>: the byte at offset \<open>p\<close>, or \<open>NaN\<close>
  (here \<open>None\<close>) when the buffer ends before it.
\<close>

definition parseInt_B :: "byte list \<Rightarrow> nat \<Rightarrow> int option" where
  "parseInt_B msg p = (case Unpack [FB 1] msg p of Some [Num v] \<Rightarrow> Some v | _ \<Rightarrow> None)"

section \<open>The library netmask and the local interfaces\<close>

text \<open>
  \<open>new Netmask(cidr)\<close> of the npm package netmask, for a well-formed address and a
  decimal prefix length: the network number, the mask, the broadcast address (undefined
  for /31 and /32) and the membership test \<open>contains\<close> for one address.
  \<open>Netmask_of\<close> is the object that the constructor builds; the constructor itself,
  \<open>Netmask_new\<close>, throws for a prefix length above 32 (its message goes on with the
  mask as it was written).
\<close>

record Netmask =
  netLong :: ipv4
  bitmask :: nat

definition maskLong :: "nat \<Rightarrow> ipv4" where
  "maskLong bits = (if bits = 0 then 0 else push_bit (32 - bits) (- 1))"

definition Netmask_of :: "ipv4 \<Rightarrow> nat \<Rightarrow> Netmask" where
  "Netmask_of a bits = \<lparr>netLong = a AND maskLong bits, bitmask = bits\<rparr>"

definition Invalid_mask :: error where
  "Invalid_mask = Error ''Invalid mask for ip4: ''"

definition Netmask_new :: "ipv4 \<Rightarrow> nat \<Rightarrow> error + Netmask" where
  "Netmask_new a bits = (if \<not> bits \<le> 32 then Inl Invalid_mask else Inr (Netmask_of a bits))"

definition broadcast_of :: "Netmask \<Rightarrow> ipv4 option" where
  "broadcast_of m =
     (if bitmask m \<le> 30 then Some (netLong m OR NOT (maskLong (bitmask m))) else None)"

definition contains :: "Netmask \<Rightarrow> ipv4 \<Rightarrow> bool" where
  "contains m a \<longleftrightarrow> a AND maskLong (bitmask m) = netLong m AND maskLong (bitmask m)"

text \<open>One entry of \<open>INTERFACES\<close>, as \<open>getNetworkInfo\<close> builds it.\<close>

record iface =
  ip :: ipv4
  mac :: "byte list"
  netmask :: Netmask

text \<open>A datagram handed to \<open>socket.send\<close>: buffer, destination port, destination.\<close>

record datagram =
  payload :: "byte list"
  dport :: int
  dest :: "ipv4 option"

section \<open>Sender\<close>

record addr_options =
  net :: int
  subnet :: int
  universe :: int

record Sender_options = addr_options +
  to_ip :: ipv4
  broadcast :: bool
  port :: int
  base_refresh_interval :: int

text \<open>
  The fields of a sender. The array \<open>values\<close> is \<open>values_of\<close> here, the options
  \<open>to\<close> and \<open>from\<close> are \<open>to_ip\<close> and \<open>from_cidr\<close>, and the fields that a
  receiver, a node or the engine share by name with a sender carry a short prefix.
  \<open>sent\<close> lists what the sender's own socket was asked to send.
\<close>

record Sender =
  options :: Sender_options
  interfaces :: "iface list"
  port_subuni :: int
  port_address :: int
  socket_ready :: bool
  ArtDmxSeq :: int
  values_of :: "int list"
  ip4 :: "ipv4 option"
  sent :: "datagram list"

text \<open>
  Lines 630-639 and 821-829: "Calculate Net/Subnet/Universe" and "Build
  Subnet/Universe/Net Int16", the same statements in both constructors. The result is
  the carried net, subnet and universe, \<open>port_subuni\<close> and \<open>port_address\<close>.
\<close>

definition calc_address :: "int \<Rightarrow> int \<Rightarrow> int \<Rightarrow> int \<times> int \<times> int \<times> int \<times> int" where
  "calc_address n s u =
     (let s1 = s + js_shr u 4;
          u' = js_and u 0x0F;
          n' = n + js_shr s1 4;
          s' = js_and s1 0x0F;
          psu = js_or (js_shl s' 4) u';
          pa = js_or (js_shl n' 8) psu
      in (n', s', u', psu, pa))"

text \<open>
  The loop over \<open>INTERFACES\<close> of lines 657-665; the state is
  \<open>(options.broadcast, ip4, interfaces)\<close>.
\<close>

fun find_destination ::
  "ipv4 \<Rightarrow> iface list \<Rightarrow> bool \<times> ipv4 option \<times> iface list \<Rightarrow> bool \<times> ipv4 option \<times> iface list"
where
  "find_destination t [] st = st"
| "find_destination t (i # is) (bc, dst, ifs) =
     (if contains (netmask i) t then
        (let bc' = (bc \<or> Some t = broadcast_of (netmask i));
             dst' = (if bc' \<and> broadcast_of (netmask i) \<noteq> None
                     then broadcast_of (netmask i) else Some t)
         in find_destination t is (bc', dst', ifs @ [i]))
      else find_destination t is (bc, dst, ifs))"

text \<open>
  \<open>new Sender(opt, parent)\<close>. The first \<open>transmit()\<close> of the constructor returns at
  once, since the socket is not bound yet.
\<close>

definition Sender_new :: "iface list \<Rightarrow> Sender_options \<Rightarrow> error + Sender" where
  "Sender_new INTERFACES opt =
     (case calc_address (net opt) (subnet opt) (universe opt) of
        (n', s', u', psu, pa) \<Rightarrow>
          if pa > 32767 then Inl (handleError_missing Invalid_Port_Address)
          else
            let (bc, dst, ifs) =
                  (if to_ip opt = - 1 then (True, Some (to_ip opt), INTERFACES)
                   else find_destination (to_ip opt) INTERFACES (broadcast opt, None, []))
            in Inr \<lparr>options = opt\<lparr>net := n', subnet := s', universe := u', broadcast := bc\<rparr>,
                    interfaces = ifs, port_subuni = psu, port_address = pa,
                    socket_ready = False, ArtDmxSeq = 1, values_of = replicate 512 0,
                    ip4 = dst, sent = []\<rparr>)"

text \<open>The callback of \<open>socket.bind\<close>.\<close>

definition Sender_bound :: "Sender \<Rightarrow> Sender" where
  "Sender_bound s = s\<lparr>socket_ready := True\<rparr>"

text \<open>
  \<open>transmit\<close>, format \<open>'!7sBHHBBBBH512B'\<close>. A method that throws returns \<open>Inl\<close> with
  the error and the object as the throw leaves it. \<open>Buffer.from(false)\<close> throws.
\<close>

definition ArtDmxFormat :: "fmt list" where
  "ArtDmxFormat = [Fs 7, FB 1, FH 1, FH 1, FB 1, FB 1, FB 1, FB 1, FH 1, FB 512]"

definition transmit :: "Sender \<Rightarrow> error \<times> Sender + Sender" where
  "transmit s =
     (if \<not> socket_ready s then Inr s
      else case Pack ArtDmxFormat
                  ([Str ''Art-Net'', Num 0, Num 0x0050, Num 14, Num (ArtDmxSeq s), Num 0,
                    Num (port_subuni s), Num (net (options s)), Num 512]
                   @ map Num (values_of s)) of
             None \<Rightarrow> Inl (buffer_from_failed, s)
           | Some udppacket \<Rightarrow>
               Inr (s\<lparr>ArtDmxSeq := (ArtDmxSeq s + 1) mod 256,
                       sent := sent s @ [\<lparr>payload = udppacket, dport = port (options s),
                                          dest = ip4 s\<rparr>]\<rparr>))"

text \<open>
  The channel mutators. The buffer has 512 entries from the constructor on, and a write
  happens only after both range checks, at an index from 0 to 511, so that it never
  extends the array.
\<close>

definition setChannel :: "Sender \<Rightarrow> int \<Rightarrow> int \<Rightarrow> error \<times> Sender + Sender" where
  "setChannel s channel v =
     (if channel > 511 \<or> channel < 0 then Inl (handleError_missing Channel_must_be, s)
      else if v > 255 \<or> v < 0 then Inl (handleError_missing Value_must_be, s)
      else transmit (s\<lparr>values_of := (values_of s)[nat channel := v]\<rparr>))"

definition prepChannel :: "Sender \<Rightarrow> int \<Rightarrow> int \<Rightarrow> error \<times> Sender + Sender" where
  "prepChannel s channel v =
     (if channel > 511 \<or> channel < 0 then Inl (handleError_missing Channel_must_be, s)
      else if v > 255 \<or> v < 0 then Inl (handleError_missing Value_must_be, s)
      else Inr (s\<lparr>values_of := (values_of s)[nat channel := v]\<rparr>))"

definition fillChannels :: "Sender \<Rightarrow> int \<Rightarrow> int \<Rightarrow> int \<Rightarrow> error \<times> Sender + Sender" where
  "fillChannels s start stop v =
     (if start > 511 \<or> start < 0 then Inl (handleError_missing Channel_must_be, s)
      else if stop > 511 \<or> stop < 0 then Inl (handleError_missing Channel_must_be, s)
      else if v > 255 \<or> v < 0 then Inl (handleError_missing Value_must_be, s)
      else transmit (s\<lparr>values_of := fold (\<lambda>i vs. vs[nat i := v]) [start..stop] (values_of s)\<rparr>))"

definition blackout :: "Sender \<Rightarrow> error \<times> Sender + Sender" where
  "blackout s = transmit (s\<lparr>values_of := map (\<lambda>_. 0) (values_of s)\<rparr>)"

section \<open>Receiver\<close>

text \<open>
  The option \<open>from\<close> is \<open>null\<close>, an address, or an address with a prefix length.
  \<open>rinfo\<close> is what the socket passes with a message; \<open>size\<close> is the message size.
\<close>

record Receiver_options = addr_options +
  from_cidr :: "(ipv4 \<times> nat option) option"

record Receiver =
  r_options :: Receiver_options
  r_interfaces :: "iface list"
  r_port_subuni :: int
  r_port_address :: int
  ipnet :: Netmask
  r_values :: "int list"
  data_events :: "int list list"

record rinfo =
  address :: ipv4
  family :: string
  size :: nat

definition Receiver_new :: "iface list \<Rightarrow> Receiver_options \<Rightarrow> error + Receiver" where
  "Receiver_new INTERFACES opt =
     (case calc_address (net opt) (subnet opt) (universe opt) of
        (n', s', u', psu, pa) \<Rightarrow>
          if pa > 32767 then Inl (handleError_missing Invalid_Port_Address)
          else
            let (frm, ipnet_new) =
                  (case from_cidr opt of
                     None \<Rightarrow> (None, Netmask_new 0 0)
                   | Some (a, None) \<Rightarrow> (Some (a, Some 32), Netmask_new a 32)
                   | Some (a, Some bits) \<Rightarrow> (Some (a, Some bits), Netmask_new a bits))
            in case ipnet_new of
                 Inl e \<Rightarrow> Inl e
               | Inr nm \<Rightarrow>
                   Inr \<lparr>r_options = opt\<lparr>net := n', subnet := s', universe := u',
                                          from_cidr := frm\<rparr>,
                        r_interfaces = filter (\<lambda>i. contains nm (ip i)) INTERFACES,
                        r_port_subuni = psu, r_port_address = pa, ipnet = nm,
                        r_values = replicate 512 0, data_events = []\<rparr>)"

definition acceptPacket :: "Receiver \<Rightarrow> int option \<Rightarrow> rinfo \<Rightarrow> bool" where
  "acceptPacket r p_address ri \<longleftrightarrow>
     p_address = Some (r_port_address r) \<and> contains (ipnet r) (address ri)"

definition receive :: "Receiver \<Rightarrow> int list \<Rightarrow> Receiver" where
  "receive r data = r\<lparr>r_values := data, data_events := data_events r @ [data]\<rparr>"

section \<open>Node\<close>

text \<open>
  A port table is a JavaScript object whose keys are port numbers; such keys are
  enumerated in ascending order, so the table is an association list sorted by key.
  The MAC address, a string of six hexadecimal bytes, is the list of the six bytes.
\<close>

record port_info =
  p_net :: int
  p_subnet :: int
  p_universe :: int
  p_ip :: ipv4
  portNumber :: int
  isGood :: bool

record Node =
  n_mac :: "byte list"
  n_ip :: "ipv4 option"
  shortName :: string
  longName :: string
  status :: string
  lastUpdate :: int
  inPorts :: "(int \<times> port_info) list"
  outPorts :: "(int \<times> port_info) list"

record apr =
  a_ip :: ipv4
  a_mac :: "byte list"
  a_shortName :: string
  a_longName :: string
  nodeReport :: string
  numPorts :: int
  portTypes :: int
  goodInput :: int
  goodOutput :: int
  swIn :: int
  swOut :: int
  a_net :: int
  subNet :: int
  bindIndex :: int
  a_inPorts :: "port_info list"
  a_outPorts :: "port_info list"

definition Node_new :: "byte list \<Rightarrow> Node" where
  "Node_new m = \<lparr>n_mac = m, n_ip = None, shortName = [], longName = [], status = [],
                 lastUpdate = 0, inPorts = [], outPorts = []\<rparr>"

fun dict_set :: "int \<Rightarrow> 'a \<Rightarrow> (int \<times> 'a) list \<Rightarrow> (int \<times> 'a) list" where
  "dict_set k v [] = [(k, v)]"
| "dict_set k v ((k', v') # d) =
     (if k = k' then (k, v) # d
      else if k < k' then (k, v) # (k', v') # d
      else (k', v') # dict_set k v d)"

definition isCompatibleWithLocalInterfaces :: "iface list \<Rightarrow> ipv4 \<Rightarrow> bool" where
  "isCompatibleWithLocalInterfaces INTERFACES remoteIp \<longleftrightarrow>
     list_ex (\<lambda>i. ip i = remoteIp \<or> contains (netmask i) remoteIp) INTERFACES"

definition updatePorts ::
  "iface list \<Rightarrow> port_info list \<Rightarrow> (int \<times> port_info) list \<Rightarrow> (int \<times> port_info) list" where
  "updatePorts INTERFACES newPorts existingPorts =
     fold (\<lambda>p d. if isCompatibleWithLocalInterfaces INTERFACES (p_ip p)
                   then dict_set (portNumber p)
                          \<lparr>p_net = p_net p, p_subnet = p_subnet p, p_universe = p_universe p,
                           p_ip = p_ip p, portNumber = portNumber p, isGood = isGood p\<rparr> d
                   else d)
          newPorts existingPorts"

text \<open>
  \<open>JSON.stringify(this)\<close> of a node. Two such strings are equal exactly when the trees
  they print are, so the tree stands for the string. \<open>JAddr\<close> is the string of a dotted
  quad and \<open>JMac\<close> the string of a MAC address.
\<close>

datatype jkey = Name string | Index int

datatype json = JNull | JNum int | JBool bool | JStr string | JAddr ipv4 | JMac "byte list"
  | JObj "(jkey \<times> json) list"

definition port_json :: "port_info \<Rightarrow> json" where
  "port_json p = JObj [(Name ''net'', JNum (p_net p)), (Name ''subnet'', JNum (p_subnet p)),
                       (Name ''universe'', JNum (p_universe p)), (Name ''ip'', JAddr (p_ip p)),
                       (Name ''portNumber'', JNum (portNumber p)),
                       (Name ''isGood'', JBool (isGood p))]"

definition ports_json :: "(int \<times> port_info) list \<Rightarrow> json" where
  "ports_json d = JObj (map (\<lambda>(k, p). (Index k, port_json p)) d)"

definition stringify :: "Node \<Rightarrow> json" where
  "stringify n =
     JObj [(Name ''mac'', JMac (n_mac n)),
           (Name ''ip'', (case n_ip n of None \<Rightarrow> JNull | Some a \<Rightarrow> JAddr a)),
           (Name ''shortName'', JStr (shortName n)), (Name ''longName'', JStr (longName n)),
           (Name ''status'', JStr (status n)), (Name ''lastUpdate'', JNum (lastUpdate n)),
           (Name ''inPorts'', ports_json (inPorts n)),
           (Name ''outPorts'', ports_json (outPorts n))]"

text \<open>
  \<open>updateFromArtPollReply\<close> returns \<open>undefined\<close> (here \<open>None\<close>) for a record of another
  MAC, and \<open>didChange\<close> otherwise; \<open>now\<close> is what \<open>Date.now()\<close> returns.
\<close>

definition updateFromArtPollReply ::
  "iface list \<Rightarrow> int \<Rightarrow> Node \<Rightarrow> apr \<Rightarrow> bool option \<times> Node" where
  "updateFromArtPollReply INTERFACES now this data =
     (if n_mac this \<noteq> a_mac data then (None, this)
      else
        let oldData = stringify this;
            this1 = this\<lparr>n_ip := Some (a_ip data), longName := a_longName data,
                          shortName := a_shortName data\<rparr>;
            this2 = this1\<lparr>inPorts := updatePorts INTERFACES (a_inPorts data) (inPorts this1)\<rparr>;
            this3 = this2\<lparr>outPorts := updatePorts INTERFACES (a_outPorts data) (outPorts this2)\<rparr>;
            didChange = (oldData \<noteq> stringify this3)
        in (Some didChange, this3\<lparr>status := nodeReport data, lastUpdate := now\<rparr>))"

section \<open>The engine\<close>

record controller =
  c_ip :: ipv4
  c_family :: string
  last_poll :: int
  alive :: bool
  diagnostic_unicast :: bool
  diagnostic_enable :: bool
  unilateral :: bool
  priority :: "int option"

record hartnet_options =
  oem :: int
  esta :: int
  h_port :: int
  sName :: string
  lName :: string
  poll_interval :: int

text \<open>
  The state of a \<open>hartnet\<close> object. \<open>nodes\<close> is a \<open>Map\<close> (keys in insertion order);
  \<open>h_sent\<close> lists what \<open>this.socket.send\<close> was called with, and \<open>node_updates\<close>
  the \<open>'node-update'\<close> events emitted. The constant \<open>INTERFACES\<close> of the module is a
  parameter of every function that reads it, and so is the clock.
\<close>

record hartnet =
  h_options :: hartnet_options
  artPollReplyCount :: int
  controllers :: "controller list"
  nodes :: "(byte list \<times> Node) list"
  senders :: "Sender list"
  receivers :: "Receiver list"
  last_poll_reply :: int
  h_socket_ready :: bool
  pollTo :: "ipv4 option"
  h_sent :: "datagram list"
  node_updates :: "Node list"

text \<open>Sequencing of statements that may throw.\<close>

definition then_do :: "error \<times> 's + 's \<Rightarrow> ('s \<Rightarrow> error \<times> 's + 's) \<Rightarrow> error \<times> 's + 's" where
  "then_do r f = (case r of Inl e \<Rightarrow> Inl e | Inr s \<Rightarrow> f s)"

fun foreach :: "'a list \<Rightarrow> ('a \<Rightarrow> 's \<Rightarrow> error \<times> 's + 's) \<Rightarrow> 's \<Rightarrow> error \<times> 's + 's" where
  "foreach [] f s = Inr s"
| "foreach (x # xs) f s = then_do (f x s) (foreach xs f)"

subsection \<open>ArtPoll\<close>

definition ArtPollFormat :: "fmt list" where
  "ArtPollFormat = [Fs 7, FB 1, FH 1, FH 1, FB 1, FB 1]"

definition ArtPoll :: "hartnet \<Rightarrow> error \<times> hartnet + hartnet" where
  "ArtPoll h =
     (if \<not> h_socket_ready h then Inr h
      else case Pack ArtPollFormat [Str ''Art-Net'', Num 0, Num 0x0020, Num 14, Num 0, Num 0] of
             None \<Rightarrow> Inl (buffer_from_failed, h)
           | Some ArtPollPacket \<Rightarrow>
               Inr (h\<lparr>h_sent := h_sent h @ [\<lparr>payload = ArtPollPacket,
                                              dport = h_port (h_options h), dest = pollTo h\<rparr>]\<rparr>))"

text \<open>
  The callback of the poll timer (lines 123-131), run when the clock shows \<open>now\<close>. The
  test \<open>now - last_poll_reply < poll_interval / 2\<close> is written without the division.
\<close>

definition poll_timer :: "int \<Rightarrow> hartnet \<Rightarrow> error \<times> hartnet + hartnet" where
  "poll_timer now h =
     (if 2 * (now - last_poll_reply h) < poll_interval (h_options h) then Inr h
      else ArtPoll h)"

subsection \<open>ArtPollReply\<close>

datatype device = ASender Sender | AReceiver Receiver

fun d_net :: "device \<Rightarrow> int" where
  "d_net (ASender s) = net (options s)"
| "d_net (AReceiver r) = net (r_options r)"

fun d_subnet :: "device \<Rightarrow> int" where
  "d_subnet (ASender s) = subnet (options s)"
| "d_subnet (AReceiver r) = subnet (r_options r)"

fun d_universe :: "device \<Rightarrow> int" where
  "d_universe (ASender s) = universe (options s)"
| "d_universe (AReceiver r) = universe (r_options r)"

fun d_interfaces :: "device \<Rightarrow> iface list" where
  "d_interfaces (ASender s) = interfaces s"
| "d_interfaces (AReceiver r) = r_interfaces r"

fun isSender :: "device \<Rightarrow> bool" where
  "isSender (ASender s) = True"
| "isSender (AReceiver r) = False"

definition swap16 :: "int \<Rightarrow> int" where
  "swap16 val = js_or (js_shl (js_and val 0xFF) 8) (js_and (js_shr val 8) 0xFF)"

fun dec :: "nat \<Rightarrow> string" where
  "dec n = (if n < 10 then [char_of (48 + n)] else dec (n div 10) @ [char_of (48 + n mod 10)])"

definition slice_last :: "nat \<Rightarrow> 'a list \<Rightarrow> 'a list" where
  "slice_last k xs = drop (length xs - k) xs"

text \<open>The reply counter is never negative, so its decimal string is that of a \<open>nat\<close>.\<close>

definition stateString :: "hartnet \<Rightarrow> string" where
  "stateString h = ''#0001 ['' @ slice_last 4 (''000'' @ dec (nat (artPollReplyCount h)))
                   @ ''] hartnet ArtNet-Transceiver running''"

definition ArtPollReplyFormat :: "fmt list" where
  "ArtPollReplyFormat =
     [Fs 7, FB 1, FH 1, FB 1, FB 1, FB 1, FB 1, FH 1, FH 1, FB 1, FB 1, FH 1, FB 1, FB 1, FH 1,
      Fs 18, Fs 64, Fs 64, FH 1, FB 4, FB 4, FB 4, FB 4, FB 4, FH 3, FB 1, FB 6, FB 4,
      FB 1, FB 1, FB 1]"

text \<open>
  The \<open>forEach\<close> of \<open>createPacket\<close> over \<open>devices.slice(0, 4)\<close>; the state is
  \<open>(portTypes, goodInput, goodOutput, swIn, swOut)\<close>.
\<close>

definition add_port :: "device \<times> int \<Rightarrow> int \<times> int \<times> int \<times> int \<times> int \<Rightarrow> int \<times> int \<times> int \<times> int \<times> int" where
  "add_port di st =
     (case (di, st) of ((device, index), (pt, gi, go, si, so)) \<Rightarrow>
        let pt' = js_or pt (js_shl (if isSender device then 0x40 else 0x80) (index * 8))
        in if isSender device
           then (pt', gi, js_or go (js_shl 0x01 index),
                 si, js_or so (js_shl (js_and (d_universe device) 0x0F) (index * 4)))
           else (pt', js_or gi (js_shl 0x01 index), go,
                 js_or si (js_shl (js_and (d_universe device) 0x0F) (index * 4)), so))"

definition createPacket ::
  "hartnet \<Rightarrow> iface \<Rightarrow> device list \<Rightarrow> int \<Rightarrow> error + byte list" where
  "createPacket h ifc devices bi =
     (let basePacket =
            [Str ''Art-Net'', Num 0, Num 0x0021] @ map Num (octets (ip ifc)) @
            [Num (h_port (h_options h)),
             Num 0x0001, Num 0, Num 0, Num (oem (h_options h)),
             Num 0, Num 0xD0, Num (swap16 (esta (h_options h))),
             Str (take 16 (sName (h_options h))), Str (take 63 (lName (h_options h))),
             Str (stateString h),
             Num (min (int (length devices)) 4), Num 0, Num 0, Num 0, Num 0,
             Num 0, Num 0, Num 0, Num 0, Num 0, Num 0, Num 0, Num 0,
             Num 0, Num 0, Num 0, Num 0, Num 0, Num 0, Num 0, Num 0,
             Num 0, Num 0, Num 0, Num 0] @
            map (\<lambda>b. Num (uint b)) (mac ifc) @ map Num (octets (ip ifc)) @
            [Num 1, Num 0x0E, Num bi]
      in case devices of
           [] \<Rightarrow> Inl (TypeError ''Cannot read properties of undefined (reading 'options')'')
         | d0 # _ \<Rightarrow>
             (case fold add_port (zip (take 4 devices) [0..3]) (0, 0, 0, 0, 0) of
                (pt, gi, go, si, so) \<Rightarrow>
                  (case Pack ArtPollReplyFormat
                          (basePacket
                             [10 := Num (d_net d0), 11 := Num (d_subnet d0),
                              19 := Num (js_and (js_shr pt 24) 0xFF),
                              20 := Num (js_and (js_shr pt 16) 0xFF),
                              21 := Num (js_and (js_shr pt 8) 0xFF),
                              22 := Num (js_and pt 0xFF),
                              23 := Num (js_and gi 0xFF), 24 := Num 0, 25 := Num 0, 26 := Num 0,
                              27 := Num (js_and go 0xFF), 28 := Num 0, 29 := Num 0, 30 := Num 0,
                              31 := Num (js_and si 0xFF),
                              32 := Num (js_and (js_shr si 8) 0xFF),
                              33 := Num (js_and (js_shr si 16) 0xFF),
                              34 := Num (js_and (js_shr si 24) 0xFF),
                              35 := Num (js_and so 0xFF),
                              36 := Num (js_and (js_shr so 8) 0xFF),
                              37 := Num (js_and (js_shr so 16) 0xFF),
                              38 := Num (js_and (js_shr so 24) 0xFF)]) of
                     None \<Rightarrow> Inl buffer_from_failed
                   | Some b \<Rightarrow> Inr b)))"

text \<open>
  \<open>groupedDevices\<close>, a \<open>Map\<close> from the key \<open>`${iface.ip}-${net}-${subnet}`\<close>, here the
  triple, to a group; a new key goes to the end.
\<close>

record dgroup =
  g_iface :: iface
  g_net :: int
  g_subnet :: int
  g_devices :: "device list"

type_synonym gkey = "ipv4 \<times> int \<times> int"

fun group_push :: "gkey \<Rightarrow> iface \<Rightarrow> device \<Rightarrow> (gkey \<times> dgroup) list \<Rightarrow> (gkey \<times> dgroup) list" where
  "group_push k ifc d [] =
     [(k, \<lparr>g_iface = ifc, g_net = d_net d, g_subnet = d_subnet d, g_devices = [d]\<rparr>)]"
| "group_push k ifc d ((k', g) # gs) =
     (if k = k' then (k', g\<lparr>g_devices := g_devices g @ [d]\<rparr>) # gs
      else (k', g) # group_push k ifc d gs)"

definition group_devices :: "device list \<Rightarrow> (gkey \<times> dgroup) list" where
  "group_devices ds =
     fold (\<lambda>d gs. fold (\<lambda>ifc. group_push (ip ifc, d_net d, d_subnet d) ifc d) (d_interfaces d) gs)
          ds []"

definition send_reply :: "dgroup \<Rightarrow> nat \<Rightarrow> hartnet \<Rightarrow> error \<times> hartnet + hartnet" where
  "send_reply g i h =
     (case createPacket h (g_iface g) (take 4 (drop (i * 4) (g_devices g))) (int i) of
        Inl e \<Rightarrow> Inl (e, h)
      | Inr udppacket \<Rightarrow>
          Inr (h\<lparr>h_sent := h_sent h @ [\<lparr>payload = udppacket, dport = 6454,
                                         dest = broadcast_of (netmask (g_iface g))\<rparr>]\<rparr>))"

definition send_group :: "dgroup \<Rightarrow> hartnet \<Rightarrow> error \<times> hartnet + hartnet" where
  "send_group g h =
     (let packetCount = (length (g_devices g) + 3) div 4
      in foreach [0..<packetCount] (send_reply g) h)"

text \<open>
  The packets are built while the counter still has its old value: \<open>createPacket\<close>
  takes \<open>stateString\<close> from the state that \<open>send_group\<close> passes on, and sending changes
  only \<open>h_sent\<close>.
\<close>

definition ArtPollReply :: "int \<Rightarrow> hartnet \<Rightarrow> error \<times> hartnet + hartnet" where
  "ArtPollReply now h =
     then_do
       (foreach (map snd (group_devices (map ASender (senders h) @ map AReceiver (receivers h))))
                send_group h)
       (\<lambda>h'. Inr (h'\<lparr>artPollReplyCount := (artPollReplyCount h' + 1) mod 10000,
                      last_poll_reply := now\<rparr>))"

subsection \<open>dataParser\<close>

fun num :: "jsval \<Rightarrow> int" where
  "num (Num v) = v"
| "num (Str s) = 0"

fun str :: "jsval \<Rightarrow> string" where
  "str (Str s) = s"
| "str (Num v) = []"

text \<open>\<open>.replace(/\0+$/, '')\<close>\<close>

definition strip_nul :: "string \<Rightarrow> string" where
  "strip_nul s = rev (dropWhile (\<lambda>c. c = CHR 0x00) (rev s))"

definition be32 :: "jsval list \<Rightarrow> nat \<Rightarrow> int" where
  "be32 unpacked k =
     js_or (js_or (js_or (js_shl (num (unpacked ! k)) 24) (js_shl (num (unpacked ! (k + 1))) 16))
                  (js_shl (num (unpacked ! (k + 2))) 8))
           (num (unpacked ! (k + 3)))"

definition make_apr :: "byte list \<Rightarrow> rinfo \<Rightarrow> jsval list \<Rightarrow> apr" where
  "make_apr msg ri unpacked =
     \<lparr>a_ip = address ri,
      a_mac = take (207 - 201) (drop 201 msg),
      a_shortName = strip_nul (str (unpacked ! 15)),
      a_longName = strip_nul (str (unpacked ! 16)),
      nodeReport = strip_nul (str (unpacked ! 17)),
      numPorts = num (unpacked ! 18),
      portTypes = be32 unpacked 19,
      goodInput = be32 unpacked 23,
      goodOutput = be32 unpacked 27,
      swIn = be32 unpacked 31,
      swOut = be32 unpacked 35,
      a_net = num (unpacked ! 10),
      subNet = num (unpacked ! 11),
      bindIndex = num (unpacked ! (length unpacked - 1)),
      a_inPorts = [], a_outPorts = []\<rparr>"

text \<open>One round of the loop "Parse port information" (lines 318-343).\<close>

definition parse_port :: "int \<Rightarrow> apr \<Rightarrow> apr" where
  "parse_port i a =
     (let portType = js_and (js_shr (portTypes a) (i * 8)) 0xFF;
          goodIn = js_and (js_shr (goodInput a) i) 0x01;
          goodOut = js_and (js_shr (goodOutput a) i) 0x01;
          a1 = (if js_and portType 0x80 \<noteq> 0
                then a\<lparr>a_inPorts := a_inPorts a @
                         [\<lparr>p_net = a_net a, p_subnet = subNet a,
                           p_universe = js_and (js_shr (swIn a) (28 - i * 4)) 0x0F,
                           p_ip = a_ip a, portNumber = bindIndex a * 4 + i,
                           isGood = (goodIn = 1)\<rparr>]\<rparr>
                else a)
      in if js_and portType 0x40 \<noteq> 0
         then a1\<lparr>a_outPorts := a_outPorts a1 @
                   [\<lparr>p_net = a_net a1, p_subnet = subNet a1,
                     p_universe = js_and (js_shr (swOut a1) (28 - i * 4)) 0x0F,
                     p_ip = a_ip a1, portNumber = bindIndex a1 * 4 + i,
                     isGood = (goodOut = 1)\<rparr>]\<rparr>
         else a1)"

definition parse_ports :: "apr \<Rightarrow> apr" where
  "parse_ports a = fold parse_port [0..min (numPorts a) 4 - 1] a"

text \<open>"Find or create Node and update" (lines 345-353).\<close>

definition upsertNode :: "iface list \<Rightarrow> int \<Rightarrow> apr \<Rightarrow> hartnet \<Rightarrow> bool option \<times> hartnet" where
  "upsertNode INTERFACES now a h =
     (let (node, nodes1) =
            (case map_of (nodes h) (a_mac a) of
               Some n \<Rightarrow> (n, nodes h)
             | None \<Rightarrow> (Node_new (a_mac a), nodes h @ [(a_mac a, Node_new (a_mac a))]));
          (didChange, node') = updateFromArtPollReply INTERFACES now node a;
          h1 = h\<lparr>nodes := map (\<lambda>(k, n). if k = a_mac a then (k, node') else (k, n)) nodes1\<rparr>
      in (didChange,
          if didChange = Some True then h1\<lparr>node_updates := node_updates h1 @ [node']\<rparr> else h1))"

text \<open>The ArtDmx payload, read once for all receivers (lines 202-206).\<close>

definition dmx_data :: "byte list \<Rightarrow> int list" where
  "dmx_data msg = map (\<lambda>ch. uint (msg ! (ch + 17))) [1..<Suc (length msg - 18)]"

definition add_opt :: "int option \<Rightarrow> int option \<Rightarrow> int option" where
  "add_opt a b = (case (a, b) of (Some x, Some y) \<Rightarrow> Some (x + y * 256) | _ \<Rightarrow> None)"

definition or_zero :: "int option \<Rightarrow> int" where
  "or_zero a = (case a of Some x \<Rightarrow> x | None \<Rightarrow> 0)"

text \<open>"Make controller object" (lines 246-259); \<open>NaN & 8\<close> is 0.\<close>

definition make_controller :: "byte list \<Rightarrow> rinfo \<Rightarrow> int \<Rightarrow> controller" where
  "make_controller msg ri now =
     (let ttm_raw = or_zero (parseInt_B msg 12)
      in \<lparr>c_ip = address ri, c_family = family ri, last_poll = now, alive = True,
          diagnostic_unicast = (js_and ttm_raw 8 > 0),
          diagnostic_enable = (js_and ttm_raw 4 > 0),
          unilateral = (js_and ttm_raw 2 > 0),
          priority = parseInt_B msg 13\<rparr>)"

text \<open>"Add or update controller" (lines 261-267).\<close>

definition upsert_controller :: "controller \<Rightarrow> hartnet \<Rightarrow> hartnet" where
  "upsert_controller ctrl h =
     (if list_ex (\<lambda>c. c_ip c = c_ip ctrl) (controllers h)
      then h\<lparr>controllers :=
               (controllers h)
                 [length (takeWhile (\<lambda>c. c_ip c \<noteq> c_ip ctrl) (controllers h)) := ctrl]\<rparr>
      else h\<lparr>controllers := controllers h @ [ctrl]\<rparr>)"

definition dataParser ::
  "iface list \<Rightarrow> int \<Rightarrow> hartnet \<Rightarrow> byte list \<Rightarrow> rinfo \<Rightarrow> error \<times> hartnet + hartnet" where
  "dataParser INTERFACES now h msg ri =
     (if size ri < 10 then Inr h
      else if Unpack [Fs 8] msg 0 \<noteq> Some [Str (''Art-Net'' @ [CHR 0x00])] then Inr h
      else
        let opcode = add_opt (parseInt_B msg 8) (parseInt_B msg 9)
        in if opcode = None \<or> opcode = Some 0 then Inr h
           else if opcode = Some 0x5000 then
             (let p_address = parseInt_B msg 14
              in Inr (h\<lparr>receivers :=
                          map (\<lambda>r. if acceptPacket r p_address ri then receive r (dmx_data msg)
                                    else r)
                              (receivers h)\<rparr>))
           else if opcode = Some 0x2000 then
             (if size ri < 14 then Inr h
              else
                let proto = add_opt (parseInt_B msg 10) (parseInt_B msg 11)
                in if proto = None \<or> proto = Some 0 \<or> or_zero proto < 14 then Inr h
                   else
                     let ctrl = make_controller msg ri now;
                         h1 = upsert_controller ctrl h
                     in ArtPollReply now h1)
           else if opcode = Some 0x2100 then
             (if length msg < 208 then Inr h
              else case Unpack ArtPollReplyFormat msg 0 of
                     None \<Rightarrow>
                       Inl (TypeError ''Cannot read properties of undefined (reading '15')'', h)
                   | Some unpacked \<Rightarrow>
                       let a = make_apr msg ri unpacked
                       in if list_ex (\<lambda>i. ip i = a_ip a) INTERFACES
                             \<and> a_shortName a = sName (h_options h)
                             \<and> a_longName a = lName (h_options h)
                          then Inr h
                          else Inr (snd (upsertNode INTERFACES now (parse_ports a) h)))
           else Inr h)"

text \<open>
  The listener of the \<open>'message'\<close> event: the socket passes the buffer and, in
  \<open>rinfo\<close>, the sender's address and the size of the message.
\<close>

definition on_message ::
  "iface list \<Rightarrow> int \<Rightarrow> hartnet \<Rightarrow> byte list \<Rightarrow> ipv4 \<Rightarrow> error \<times> hartnet + hartnet" where
  "on_message INTERFACES now h msg src =
     dataParser INTERFACES now h msg \<lparr>address = src, family = ''IPv4'', size = length msg\<rparr>"

section \<open>Well-formed inputs\<close>

text \<open>The first eight bytes of every Art-Net packet: \<open>"Art-Net"\<close> and a zero byte.\<close>

definition ArtNet_header :: "byte list" where
  "ArtNet_header = [65, 114, 116, 45, 78, 101, 116, 0]"

text \<open>
  A sender whose socket is bound and whose fields are in the ranges that the constructor
  and the channel mutators keep: 512 channel values in 0..255, a sequence number in
  0..255, and the parts of a valid port address.
\<close>

definition wf_sender :: "Sender \<Rightarrow> bool" where
  "wf_sender s \<longleftrightarrow>
     socket_ready s \<and> length (values_of s) = 512
     \<and> list_all (\<lambda>v. 0 \<le> v \<and> v \<le> 255) (values_of s)
     \<and> 0 \<le> ArtDmxSeq s \<and> ArtDmxSeq s \<le> 255 \<and> 0 \<le> port_subuni s \<and> port_subuni s \<le> 255
     \<and> 0 \<le> net (options s) \<and> net (options s) \<le> 127"

section \<open>Concrete inputs\<close>

text \<open>
  One local interface 10.0.0.1/24, option objects with the defaults of the source, and
  a sender on universe 0 as \<open>new Sender\<close> leaves it once its socket is bound.
\<close>

definition ifc0 :: iface where
  "ifc0 = \<lparr>ip = dotted 10 0 0 1, mac = [2, 0, 0, 0, 0, 1],
           netmask = Netmask_of (dotted 10 0 0 1) 24\<rparr>"

definition sender_opts :: "int \<Rightarrow> int \<Rightarrow> int \<Rightarrow> Sender_options" where
  "sender_opts n s u = \<lparr>net = n, subnet = s, universe = u, to_ip = - 1, broadcast = False,
                         port = 6454, base_refresh_interval = 1000\<rparr>"

definition receiver_opts :: "int \<Rightarrow> int \<Rightarrow> int \<Rightarrow> Receiver_options" where
  "receiver_opts n s u = \<lparr>net = n, subnet = s, universe = u, from_cidr = None\<rparr>"

definition sender0 :: Sender where
  "sender0 = \<lparr>options = (sender_opts 0 0 0)\<lparr>broadcast := True\<rparr>, interfaces = [ifc0],
               port_subuni = 0, port_address = 0, socket_ready = True, ArtDmxSeq = 1,
               values_of = replicate 512 0, ip4 = Some (- 1), sent = []\<rparr>"

definition sender_on :: "int \<Rightarrow> Sender" where
  "sender_on u = sender0\<lparr>options := (options sender0)\<lparr>universe := u\<rparr>,
                         port_subuni := u, port_address := u\<rparr>"

text \<open>A sender on net 1, subnet 2, universe 3 about to send sequence number 255.\<close>

definition sender1 :: Sender where
  "sender1 = sender0\<lparr>options := (options sender0)\<lparr>net := 1, subnet := 2, universe := 3\<rparr>,
                     port_subuni := 0x23, port_address := 0x123, ArtDmxSeq := 255,
                     values_of := [7, 255] @ replicate 510 0\<rparr>"

definition opts0 :: hartnet_options where
  "opts0 = \<lparr>oem = 0x2908, esta = 0, h_port = 6454, sName = ''hartnet-node'',
            lName = ''hartnet-node 9b2d7d3c'', poll_interval = 1000\<rparr>"

definition engine0 :: hartnet where
  "engine0 = \<lparr>h_options = opts0, artPollReplyCount = 0, controllers = [], nodes = [],
               senders = [], receivers = [], last_poll_reply = 0, h_socket_ready = True,
               pollTo = Some (- 1), h_sent = [], node_updates = []\<rparr>"

text \<open>The engine with six senders on universes 0 to 5 of net 0, subnet 0.\<close>

definition engine6 :: hartnet where
  "engine6 = engine0\<lparr>senders := map sender_on [0, 1, 2, 3, 4, 5]\<rparr>"

text \<open>
  Receivers as \<open>new Receiver\<close> builds them on the interface \<open>ifc0\<close>: one without a
  source filter on a given net, subnet and universe, and the receiver with
  \<open>from = "10.0.0.5"\<close> on universe 3.
\<close>

definition receiver_on :: "int \<Rightarrow> int \<Rightarrow> int \<Rightarrow> Receiver" where
  "receiver_on n s u =
     \<lparr>r_options = receiver_opts n s u, r_interfaces = [ifc0], r_port_subuni = 16 * s + u,
      r_port_address = 256 * n + 16 * s + u, ipnet = Netmask_of 0 0,
      r_values = replicate 512 0, data_events = []\<rparr>"

definition receiver_5 :: Receiver where
  "receiver_5 = \<lparr>r_options = \<lparr>net = 0, subnet = 0, universe = 3,
                                from_cidr = Some (dotted 10 0 0 5, Some 32)\<rparr>,
                  r_interfaces = [], r_port_subuni = 3, r_port_address = 3,
                  ipnet = Netmask_of (dotted 10 0 0 5) 32,
                  r_values = replicate 512 0, data_events = []\<rparr>"

text \<open>
  An ArtDmx packet for net 1, subnet 0, universe 3 with two channels; an ArtDmx packet
  cut after the byte at offset 14; an ArtPoll whose protocol version, high byte first,
  is 1.
\<close>

definition dmx_net1 :: "byte list" where
  "dmx_net1 = ArtNet_header @ [0, 0x50, 0, 14, 1, 0, 3, 1, 0, 2, 10, 20]"

definition dmx15 :: "byte list" where
  "dmx15 = ArtNet_header @ [0, 0x50, 0, 14, 1, 0, 0]"

definition poll_v1 :: "byte list" where
  "poll_v1 = ArtNet_header @ [0, 0x20, 0, 1, 0, 0]"

text \<open>The ArtPoll packet that \<open>ArtPoll()\<close> itself sends.\<close>

definition poll_v14 :: "byte list" where
  "poll_v14 = ArtNet_header @ [0, 0x20, 0, 14, 0, 0]"

text \<open>
  An ArtPollReply of 214 bytes from 10.0.0.7 that describes four input ports: port types
  80 80 80 80, good-input bytes ff ff ff 00, and the universes 1, 2, 3, 4 in the four
  bytes of the input-universe array at offset 186.
\<close>

definition reply_pkt :: "byte list" where
  "reply_pkt =
     ArtNet_header @ [0x00, 0x21] @ [10, 0, 0, 7] @ [0x19, 0x36] @ [0, 1] @ [0, 0] @ [0x29, 0x08]
     @ [0, 0xD0] @ [0, 0]
     @ map of_char ''node'' @ replicate 14 0
     @ map of_char ''node 7'' @ replicate 58 0
     @ map of_char ''#0001 [0000] ok'' @ replicate 49 0
     @ [0, 4] @ [0x80, 0x80, 0x80, 0x80] @ [0xFF, 0xFF, 0xFF, 0x00] @ [0, 0, 0, 0]
     @ [1, 2, 3, 4] @ [0, 0, 0, 0]
     @ [0, 0, 0, 0, 0, 0] @ [0] @ [2, 0, 0, 0, 0, 7] @ [10, 0, 0, 7] @ [0, 0, 0]"

text \<open>
  The record of an ArtPollReply from the node 02:00:00:00:00:07 at 10.0.0.7 with one good
  input port on universe 1, and the node as the first such record leaves it at time
  1000.
\<close>

definition port7 :: port_info where
  "port7 = \<lparr>p_net = 0, p_subnet = 0, p_universe = 1, p_ip = dotted 10 0 0 7, portNumber = 0,
             isGood = True\<rparr>"

definition apr7 :: apr where
  "apr7 = \<lparr>a_ip = dotted 10 0 0 7, a_mac = [2, 0, 0, 0, 0, 7], a_shortName = ''node'',
            a_longName = ''node 7'', nodeReport = ''#0001 [0000] ok'', numPorts = 1,
            portTypes = 0x80, goodInput = 1, goodOutput = 0, swIn = 0x10000000, swOut = 0,
            a_net = 0, subNet = 0, bindIndex = 0, a_inPorts = [port7], a_outPorts = []\<rparr>"

definition node7 :: Node where
  "node7 = \<lparr>n_mac = [2, 0, 0, 0, 0, 7], n_ip = Some (dotted 10 0 0 7), shortName = ''node'',
             longName = ''node 7'', status = ''#0001 [0000] ok'', lastUpdate = 1000,
             inPorts = [(0, port7)], outPorts = []\<rparr>"

text \<open>
  A second host 10.0.0.9 on the same subnet, and the ArtPollReply that the engine on
  10.0.0.1 sends for two receivers on the universes 1 and 2.
\<close>

definition ifc9 :: iface where
  "ifc9 = \<lparr>ip = dotted 10 0 0 9, mac = [2, 0, 0, 0, 0, 9],
           netmask = Netmask_of (dotted 10 0 0 9) 24\<rparr>"

definition own_reply :: "byte list" where
  "own_reply =
     ArtNet_header @ [0x00, 0x21] @ [10, 0, 0, 1] @ [0x19, 0x36] @ [0, 1] @ [0, 0] @ [0, 0]
     @ [0, 0xD0] @ [0, 0]
     @ map of_char ''hartnet-node'' @ replicate 6 0
     @ map of_char ''hartnet-node 9b2d7d3c'' @ replicate 43 0
     @ map of_char ''#0001 [0000] hartnet ArtNet-Transceiver running'' @ replicate 17 0
     @ [0, 2] @ [0, 0, 0x80, 0x80] @ [3, 0, 0, 0] @ [0, 0, 0, 0]
     @ [0x21, 0, 0, 0] @ [0, 0, 0, 0]
     @ [0, 0, 0, 0, 0, 0] @ [0] @ [2, 0, 0, 0, 0, 1] @ [10, 0, 0, 1] @ [1, 0x0E, 0]"

section \<open>The bitwise operators as arithmetic\<close>

lemma ToInt32_id: "- 2147483648 \<le> x \<Longrightarrow> x < 2147483648 \<Longrightarrow> ToInt32 x = x"
  unfolding ToInt32_def by (rule signed_take_bit_int_eq_self) simp_all

lemma ToInt32_range: "- 2147483648 \<le> ToInt32 x \<and> ToInt32 x < 2147483648"
  using signed_take_bit_int_greater_eq_minus_exp [of 31 x] signed_take_bit_int_less_exp [of 31 x]
  by (simp add: ToInt32_def)

lemma js_shr_4: "js_shr x 4 = ToInt32 x div 16"
  by (simp add: js_shr_def drop_bit_eq_div)

lemma and_15: "(y::int) AND 15 = y mod 16"
  using take_bit_eq_mask[of 4 y] by (simp add: take_bit_eq_mod mask_eq_exp_minus_1)

lemma js_and_15: "js_and x 15 = ToInt32 x mod 16"
proof -
  have "ToInt32 15 = 15" by (simp add: ToInt32_def)
  then show ?thesis by (simp add: js_and_def and_15)
qed

lemma small_bits: "0 \<le> (b::int) \<Longrightarrow> b < 2 ^ k \<Longrightarrow> take_bit k b = b"
  by (simp add: take_bit_int_eq_self)

lemma or_low: 
  assumes "0 \<le> (b::int)" "b < 2 ^ k" "k \<le> 31"
  shows "ToInt32 (push_bit k a) OR b = ToInt32 (push_bit k a) + b"
proof -
  have b: "take_bit k b = b" using assms by (simp add: take_bit_int_eq_self)
  have "ToInt32 (push_bit k a) AND take_bit k b = 0"
    using assms(3) by (auto simp: bit_eq_iff bit_simps ToInt32_def)
  then show ?thesis using b by (simp add: disjunctive_add_eq_or)
qed

lemma js_shl_eq: "0 \<le> k \<Longrightarrow> k < 32 \<Longrightarrow> js_shl x k = ToInt32 (push_bit (nat k) x)"
proof -
  assume k: "0 \<le> k" "k < 32"
  have "signed_take_bit 31 (push_bit m (signed_take_bit 31 x)) = signed_take_bit 31 (push_bit m x)"
    if "m \<le> 31" for m :: nat
  proof (cases "m = 0")
    case True
    then show ?thesis by simp
  next
    case False
    then have "0 < m" by simp
    show ?thesis
    proof (rule bit_eqI)
      fix n
      show "bit (signed_take_bit 31 (push_bit m (signed_take_bit 31 x))) n
            = bit (signed_take_bit 31 (push_bit m x)) n"
        using that \<open>0 < m\<close> by (auto simp: bit_simps min_def)
    qed
  qed
  from this[of "nat k"] k show ?thesis
    by (simp add: js_shl_def ToInt32_def)
qed

lemma calc_address_eq:
  "calc_address n s u =
     (let s1 = s + ToInt32 u div 16; n' = n + ToInt32 s1 div 16;
          s' = ToInt32 s1 mod 16; u' = ToInt32 u mod 16
      in (n', s', u', 16 * s' + u', ToInt32 (256 * n') + 16 * s' + u'))"
proof -
  define s1 where "s1 = s + ToInt32 u div 16"
  define s' where "s' = ToInt32 s1 mod 16"
  define u' where "u' = ToInt32 u mod 16"
  define n' where "n' = n + ToInt32 s1 div 16"
  have r: "0 \<le> s'" "s' < 16" "0 \<le> u'" "u' < 16" by (simp_all add: s'_def u'_def)
  have a: "js_shl s' 4 = 16 * s'"
    using r by (simp add: js_shl_eq push_bit_eq_mult ToInt32_id)
  have iu: "ToInt32 u' = u'" using r by (simp add: ToInt32_id)
  have "js_or (js_shl s' 4) u' = ToInt32 (push_bit 4 s') OR u'"
    using iu by (simp add: js_or_def js_shl_eq ToInt32_def)
  also have "\<dots> = ToInt32 (push_bit 4 s') + u'"
    using or_low[of u' 4 s'] r by simp
  finally have psu: "js_or (js_shl s' 4) u' = 16 * s' + u'"
    using r by (simp add: push_bit_eq_mult ToInt32_id)
  have p: "0 \<le> 16 * s' + u'" "16 * s' + u' < 2 ^ 8" using r by simp_all
  have ip: "ToInt32 (16 * s' + u') = 16 * s' + u'" using p by (simp add: ToInt32_id)
  have "js_or (js_shl n' 8) (16 * s' + u') = ToInt32 (push_bit 8 n') OR (16 * s' + u')"
    using ip by (simp add: js_or_def js_shl_eq ToInt32_def)
  also have "\<dots> = ToInt32 (push_bit 8 n') + (16 * s' + u')"
    using or_low[OF p] by simp
  finally have pa: "js_or (js_shl n' 8) (16 * s' + u') = ToInt32 (256 * n') + 16 * s' + u'"
    by (simp add: push_bit_eq_mult mult.commute)
  show ?thesis
    unfolding calc_address_def Let_def js_and_15 js_shr_4
    using psu pa by (simp add: s1_def s'_def u'_def n'_def)
qed


lemma calc_address_nat_range:
  assumes "0 \<le> n" "n < 4194304" "0 \<le> s" "s < 4194304" "0 \<le> u" "u < 4194304"
  shows "calc_address n s u =
           (n + (s + u div 16) div 16, (s + u div 16) mod 16, u mod 16,
            16 * ((s + u div 16) mod 16) + u mod 16, 256 * n + 16 * s + u)"
proof -
  have u: "ToInt32 u = u" using assms by (simp add: ToInt32_id)
  have "0 \<le> u div 16" "u div 16 < 4194304" using assms by simp_all
  then have s1: "ToInt32 (s + u div 16) = s + u div 16"
    using assms by (simp add: ToInt32_id)
  have "0 \<le> (s + u div 16) div 16" "(s + u div 16) div 16 < 4194304"
    using assms \<open>0 \<le> u div 16\<close> \<open>u div 16 < 4194304\<close> by simp_all
  then have n': "ToInt32 (256 * (n + (s + u div 16) div 16)) = 256 * (n + (s + u div 16) div 16)"
    using assms by (simp add: ToInt32_id)
  show ?thesis
    unfolding calc_address_eq Let_def u s1 n' by (simp add: algebra_simps) presburger
qed

lemma carry_sum:
  "16 * a + b = s + c \<Longrightarrow> 16 * c + d = u \<Longrightarrow> 256 * a + (16 * b + d) = 16 * s + (u::int)"
  by linarith

section \<open>Channel mutators of a Sender\<close>

text \<open>
  The example senders are what the constructor returns for the interface \<open>ifc0\<close>,
  once the socket is bound.
\<close>

lemma sender_on_constructed:
  assumes "0 \<le> u" "u < 16"
  shows "map_sum id Sender_bound (Sender_new [ifc0] (sender_opts 0 0 u)) = Inr (sender_on u)"
proof -
  have "calc_address 0 0 u = (0, 0, u, u, u)"
    using calc_address_nat_range [of 0 0 u] assms by simp
  then show ?thesis
    using assms
    by (simp add: Sender_new_def sender_opts_def sender_on_def sender0_def Sender_bound_def)
qed

lemma sender0_constructed:
  "map_sum id Sender_bound (Sender_new [ifc0] (sender_opts 0 0 0)) = Inr sender0"
  using sender_on_constructed [of 0] by (simp add: sender_on_def sender0_def sender_opts_def)

text \<open>In range, the mutators write the value at the index of the channel.\<close>

lemma setChannel_in_range:
  assumes "0 \<le> channel" "channel \<le> 511" "0 \<le> v" "v \<le> 255"
  shows "setChannel s channel v = transmit (s\<lparr>values_of := (values_of s)[nat channel := v]\<rparr>)"
    and "prepChannel s channel v = Inr (s\<lparr>values_of := (values_of s)[nat channel := v]\<rparr>)"
  using assms by (simp_all add: setChannel_def prepChannel_def)

text \<open>
  Claim C10. \<open>setChannel\<close> and \<open>prepChannel\<close> with a channel outside 0..511 or a
  value outside 0..255, and \<open>fillChannels\<close> with a start, stop or value out of range,
  throw to the caller, and the throw leaves the sender as it was: no entry of the
  channel buffer is written and nothing is transmitted.
\<close>

theorem channel_errors_leave_buffer:
  "(channel < 0 \<or> 511 < channel \<or> v < 0 \<or> 255 < v \<longrightarrow>
      setChannel s channel v = Inl (TypeError ''this.handleError is not a function'', s)
      \<and> prepChannel s channel v = Inl (TypeError ''this.handleError is not a function'', s))
   \<and> (start < 0 \<or> 511 < start \<or> stop < 0 \<or> 511 < stop \<or> v < 0 \<or> 255 < v \<longrightarrow>
      fillChannels s start stop v = Inl (TypeError ''this.handleError is not a function'', s))"
proof (intro conjI impI)
  assume bad: "channel < 0 \<or> 511 < channel \<or> v < 0 \<or> 255 < v"
  show "setChannel s channel v = Inl (TypeError ''this.handleError is not a function'', s)"
  proof (cases "channel > 511 \<or> channel < 0")
    case True
    then show ?thesis by (simp add: setChannel_def handleError_missing_def)
  next
    case False
    with bad have "v > 255 \<or> v < 0" by auto
    with False show ?thesis by (simp add: setChannel_def handleError_missing_def)
  qed
  show "prepChannel s channel v = Inl (TypeError ''this.handleError is not a function'', s)"
  proof (cases "channel > 511 \<or> channel < 0")
    case True
    then show ?thesis by (simp add: prepChannel_def handleError_missing_def)
  next
    case False
    with bad have "v > 255 \<or> v < 0" by auto
    with False show ?thesis by (simp add: prepChannel_def handleError_missing_def)
  qed
next
  assume bad: "start < 0 \<or> 511 < start \<or> stop < 0 \<or> 511 < stop \<or> v < 0 \<or> 255 < v"
  consider "start > 511 \<or> start < 0"
    | "\<not> (start > 511 \<or> start < 0)" "stop > 511 \<or> stop < 0"
    | "\<not> (start > 511 \<or> start < 0)" "\<not> (stop > 511 \<or> stop < 0)" "v > 255 \<or> v < 0"
    using bad by auto
  then show "fillChannels s start stop v = Inl (TypeError ''this.handleError is not a function'', s)"
    by cases (simp_all add: fillChannels_def handleError_missing_def)
qed

theorem channel_errors_leave_buffer_witness:
  "setChannel sender0 512 0 = Inl (TypeError ''this.handleError is not a function'', sender0)
   \<and> prepChannel sender0 512 0 = Inl (TypeError ''this.handleError is not a function'', sender0)
   \<and> fillChannels sender0 0 512 0 = Inl (TypeError ''this.handleError is not a function'', sender0)"
  using channel_errors_leave_buffer [of 512 0 sender0 0 512] by simp

section \<open>Port address of a Sender or Receiver\<close>

text \<open>
  What both constructors do with the raw net, subnet and universe. The carried parts and
  the combined value are those of the 32-bit operators (\<open>calc_address_eq\<close>). When the
  combined value is above 32767 the constructor calls \<open>this.handleError\<close>, which neither
  class defines, so that the call itself throws a \<open>TypeError\<close>; otherwise a sender is
  built with the carried parts, and a receiver is built unless the prefix length of
  \<open>from\<close> is above 32.
\<close>

lemma Sender_new_range_check:
  assumes "calc_address (net so) (subnet so) (universe so) = (n', s', u', psu, pa)"
  shows "if 32767 < pa
         then Sender_new I so = Inl (TypeError ''this.handleError is not a function'')
         else \<exists>x. Sender_new I so = Inr x \<and> net (options x) = n' \<and> subnet (options x) = s'
                  \<and> universe (options x) = u' \<and> port_subuni x = psu \<and> port_address x = pa"
  using assms
  by (auto simp: Sender_new_def Let_def handleError_missing_def split: prod.splits)

lemma Receiver_new_range_check:
  assumes "calc_address (net ro) (subnet ro) (universe ro) = (n', s', u', psu, pa)"
  shows "if 32767 < pa
         then Receiver_new I ro = Inl (TypeError ''this.handleError is not a function'')
         else if (\<exists>a bits. from_cidr ro = Some (a, Some bits) \<and> 32 < bits)
         then Receiver_new I ro = Inl Invalid_mask
         else \<exists>x. Receiver_new I ro = Inr x \<and> net (r_options x) = n'
                  \<and> subnet (r_options x) = s' \<and> universe (r_options x) = u'
                  \<and> r_port_subuni x = psu \<and> r_port_address x = pa"
proof (cases "32767 < pa")
  case True
  then show ?thesis
    using assms by (simp add: Receiver_new_def handleError_missing_def)
next
  case False
  show ?thesis
  proof (cases "from_cidr ro")
    case None
    then show ?thesis
      using assms False by (simp add: Receiver_new_def Netmask_new_def)
  next
    case (Some c)
    obtain a ob where c: "c = (a, ob)" by (cases c)
    show ?thesis
    proof (cases ob)
      case None
      then show ?thesis
        using assms False Some c by (simp add: Receiver_new_def Netmask_new_def)
    next
      case (Some bits)
      then show ?thesis
        using assms False \<open>from_cidr ro = Some c\<close> c
        by (cases "32 < bits") (simp_all add: Receiver_new_def Netmask_new_def)
    qed
  qed
qed

text \<open>
  For inputs from 0 up to \<open>2^22\<close> the 32-bit operators do not wrap: the carried parts
  are those of ordinary division by 16, and the combined value is
  \<open>256 * net + 16 * subnet + universe\<close> of the raw inputs.
\<close>

lemma carry_in_range:
  assumes "0 \<le> n" "n < 4194304" "0 \<le> s" "s < 4194304" "0 \<le> u" "u < 4194304"
    and c: "calc_address n s u = (n', s', u', psu, pa)"
  shows "u' = u mod 16" "s' = (s + u div 16) mod 16" "n' = n + (s + u div 16) div 16"
    "256 * n' + 16 * s' + u' = 256 * n + 16 * s + u" "pa = 256 * n + 16 * s + u"
proof -
  show e: "u' = u mod 16" "s' = (s + u div 16) mod 16" "n' = n + (s + u div 16) div 16"
    "pa = 256 * n + 16 * s + u"
    using calc_address_nat_range [of n s u] assms by simp_all
  have t: "256 * ((s + u div 16) div 16) + (16 * ((s + u div 16) mod 16) + u mod 16)
                 = 16 * s + u"
    by (rule carry_sum [OF mult_div_mod_eq mult_div_mod_eq])
  show "256 * n' + 16 * s' + u' = 256 * n + 16 * s + u"
    unfolding e using t by (simp only: distrib_left add.assoc mult.assoc [symmetric])
qed

lemma carried_examples:
  "calc_address 0 15 17 = (1, 0, 1, 1, 257)" "calc_address 127 15 15 = (127, 15, 15, 255, 32767)"
  by (simp_all add: calc_address_def js_shr_def js_and_def js_or_def js_shl_def ToInt32_def)

text \<open>
  Claim C4 at net 127, subnet 15, universe 16. The universe carries into the subnet and
  the subnet into the net: the carried parts are 128, 0, 0 and the combined value is
  32768, above 32767. Both constructors then build the error "Invalid Port Address" and
  pass it to \<open>this.handleError\<close>; neither \<open>Sender\<close> nor \<open>Receiver\<close> has such a
  method (the engine has, and \<open>transmit\<close> reaches it as \<open>this.parent.handleError\<close>),
  so what construction throws is the \<open>TypeError\<close> of the call, and the error
  "Invalid Port Address" reaches nobody.
\<close>

theorem Invalid_Port_Address_is_lost:
  "calc_address 127 15 16 = (128, 0, 0, 0, 32768)
   \<and> Sender_new [ifc0] (sender_opts 127 15 16)
       = Inl (TypeError ''this.handleError is not a function'')
   \<and> Receiver_new [ifc0] (receiver_opts 127 15 16)
       = Inl (TypeError ''this.handleError is not a function'')
   \<and> Sender_new [ifc0] (sender_opts 127 15 16) \<noteq> Inl Invalid_Port_Address
   \<and> Receiver_new [ifc0] (receiver_opts 127 15 16) \<noteq> Inl Invalid_Port_Address"
proof -
  have c: "calc_address 127 15 16 = (128, 0, 0, 0, 32768)"
    by (simp add: calc_address_def js_shr_def js_and_def js_or_def js_shl_def ToInt32_def)
  have s: "Sender_new [ifc0] (sender_opts 127 15 16)
             = Inl (TypeError ''this.handleError is not a function'')"
    using c by (simp add: Sender_new_def sender_opts_def handleError_missing_def)
  have r: "Receiver_new [ifc0] (receiver_opts 127 15 16)
             = Inl (TypeError ''this.handleError is not a function'')"
    using c by (simp add: Receiver_new_def receiver_opts_def handleError_missing_def)
  show ?thesis
    unfolding s r using c by (simp add: Invalid_Port_Address_def)
qed

text \<open>
  The same holds for every input whose combined value is above 32767, and one step
  below, at 127, 15, 15 with the combined value 32767, both objects are built.
\<close>

lemma largest_port_address_is_built:
  "\<exists>x. Sender_new [ifc0] (sender_opts 127 15 15) = Inr x \<and> port_address x = 32767"
  "\<exists>x. Receiver_new [ifc0] (receiver_opts 127 15 15) = Inr x \<and> r_port_address x = 32767"
  using Sender_new_range_check [where so = "sender_opts 127 15 15" and I = "[ifc0]"
      and n' = 127 and s' = 15 and u' = 15 and psu = 255 and pa = 32767]
    Receiver_new_range_check [where ro = "receiver_opts 127 15 15" and I = "[ifc0]"
      and n' = 127 and s' = 15 and u' = 15 and psu = 255 and pa = 32767]
  by (auto simp: sender_opts_def receiver_opts_def carried_examples)

text \<open>
  Outside the 32-bit range the operators drop the high bits of a raw input before
  anything is carried. A universe of \<open>2^32 + 5\<close> becomes universe 5 with nothing
  carried into the subnet; a net of \<open>2^24\<close> is shifted out of the combined value, which
  is 0, and a net of \<open>2^23\<close> is shifted into the sign bit, so that the combined value
  is negative. In all three cases the check passes and the object is built.
\<close>

lemma calc_address_wraps:
  "calc_address 0 0 4294967301 = (0, 0, 5, 5, 5)"
  "calc_address 16777216 0 0 = (16777216, 0, 0, 0, 0)"
  "calc_address 8388608 0 0 = (8388608, 0, 0, 0, - 2147483648)"
  by (simp_all add: calc_address_def js_shr_def js_and_def js_or_def js_shl_def ToInt32_def)

lemma wrapped_inputs_are_accepted:
  "\<exists>x. Sender_new [ifc0] (sender_opts 0 0 4294967301) = Inr x \<and> net (options x) = 0
       \<and> subnet (options x) = 0 \<and> universe (options x) = 5 \<and> port_address x = 5"
  "\<exists>x. Sender_new [ifc0] (sender_opts 16777216 0 0) = Inr x \<and> net (options x) = 16777216
       \<and> port_address x = 0"
  "\<exists>x. Receiver_new [ifc0] (receiver_opts 0 0 4294967301) = Inr x \<and> net (r_options x) = 0
       \<and> subnet (r_options x) = 0 \<and> universe (r_options x) = 5 \<and> r_port_address x = 5"
  using Sender_new_range_check [where so = "sender_opts 0 0 4294967301" and I = "[ifc0]"
      and n' = 0 and s' = 0 and u' = 5 and psu = 5 and pa = 5]
    Sender_new_range_check [where so = "sender_opts 16777216 0 0" and I = "[ifc0]"
      and n' = 16777216 and s' = 0 and u' = 0 and psu = 0 and pa = 0]
    Receiver_new_range_check [where ro = "receiver_opts 0 0 4294967301" and I = "[ifc0]"
      and n' = 0 and s' = 0 and u' = 5 and psu = 5 and pa = 5]
  by (auto simp: sender_opts_def receiver_opts_def calc_address_wraps)
section \<open>ArtDmx: encoding and decoding\<close>

lemma dmx_data_drop: "dmx_data msg = map uint (drop 18 msg)"
proof (rule nth_equalityI)
  show "length (dmx_data msg) = length (map uint (drop 18 msg))"
    by (simp add: dmx_data_def del: upt_Suc)
next
  fix i
  assume "i < length (dmx_data msg)"
  then have i: "i < length msg - 18" by (simp add: dmx_data_def del: upt_Suc)
  then have "[1..<Suc (length msg - 18)] ! i = 1 + i"
    by (metis nth_upt plus_1_eq_Suc not_less_eq)
  with i show "dmx_data msg ! i = map uint (drop 18 msg) ! i"
    by (simp add: dmx_data_def add.commute del: upt_Suc)
qed

lemma uint_enB: "0 \<le> v \<Longrightarrow> v \<le> 255 \<Longrightarrow> uint (word_of_int (clampv 255 v) :: byte) = v"
  by (simp add: clampv_def uint_word_of_int take_bit_eq_mod)

lemma concat_enB: "concat (map (enB \<circ> Num) vs) = map (\<lambda>v. word_of_int (clampv 255 v)) vs"
  by (induction vs) simp_all

lemma Pack_ArtDmx:
  assumes "length vals = 512"
  shows "Pack ArtDmxFormat
           ([Str ''Art-Net'', Num 0, Num 0x0050, Num 14, Num sq, Num 0, Num psu, Num n, Num 512]
            @ map Num vals)
         = Some ([65, 114, 116, 45, 78, 101, 116, 0, 0, 0x50, 0, 14,
                  word_of_int (clampv 255 sq), 0, word_of_int (clampv 255 psu),
                  word_of_int (clampv 255 n), 2, 0]
                 @ map (\<lambda>v. word_of_int (clampv 255 v)) vals)"
  using assms
  by (simp add: Pack_def ArtDmxFormat_def enS_def concat_enB) (simp add: clampv_def)

lemma map_uint_enB:
  "list_all (\<lambda>v. 0 \<le> v \<and> v \<le> 255) vs \<Longrightarrow>
   map (uint \<circ> (\<lambda>v. word_of_int (clampv 255 v) :: byte)) vs = vs"
  by (induction vs) (simp_all add: uint_enB)

lemma header_chars:
  "map (\<lambda>b. char_of (unat b)) [65, 114, 116, 45, 78, 101, 116, 0 :: byte] = ''Art-Net'' @ [CHR 0x00]"
  by code_simp

lemma parseInt_B_eq:
  "parseInt_B msg p = (if p < length msg then Some (uint (msg ! p)) else None)"
proof (cases "p < length msg")
  case True
  then have "take 1 (drop p msg) = [msg ! p]"
    by (metis Cons_nth_drop_Suc One_nat_def take0 take_Suc_Cons)
  with True show ?thesis by (simp add: parseInt_B_def)
next
  case False
  then show ?thesis by (simp add: parseInt_B_def)
qed

lemma Unpack_header:
  "8 \<le> length msg \<Longrightarrow>
   (Unpack [Fs 8] msg 0 = Some [Str (''Art-Net'' @ [CHR 0x00])]) = (take 8 msg = ArtNet_header)"
proof -
  assume l: "8 \<le> length msg"
  have inj: "inj (\<lambda>b :: byte. char_of (unat b))"
  proof (rule inj_on_inverseI [where g = "\<lambda>c. word_of_nat (of_char c)"])
    fix b :: byte
    have "unat b < 256" using unsigned_less [of b] by simp
    then show "word_of_nat (of_char (char_of (unat b))) = b" by simp
  qed
  have "(map (\<lambda>b. char_of (unat b)) (take 8 msg) = map (\<lambda>b. char_of (unat b)) ArtNet_header)
        = (take 8 msg = ArtNet_header)"
    using inj by simp
  then show ?thesis
    using l header_chars by (simp add: deS_def ArtNet_header_def)
qed

lemma dataParser_ArtDmx:
  assumes "10 \<le> length msg" "take 8 msg = ArtNet_header" "msg ! 8 = 0" "msg ! 9 = 0x50"
  shows "on_message I now h msg src =
           Inr (h\<lparr>receivers :=
                   map (\<lambda>r. if acceptPacket r (parseInt_B msg 14)
                                   \<lparr>address = src, family = ''IPv4'', size = length msg\<rparr>
                             then receive r (dmx_data msg) else r)
                       (receivers h)\<rparr>)"
proof -
  have u: "Unpack [Fs 8] msg 0 = Some [Str (''Art-Net'' @ [CHR 0x00])]"
    using assms Unpack_header [of msg] by simp
  show ?thesis
    unfolding on_message_def dataParser_def u
    using assms by (simp add: parseInt_B_eq add_opt_def Let_def)
qed

text \<open>
  Claim C2, as amended. The engine encodes ArtDmx only in \<open>Sender.transmit\<close>, which
  always packs the 512 entries of the channel buffer. For every well-formed sender the
  packet sent has 530 bytes: the header, the opcode 0x5000 low byte first, the protocol
  version 14 and the length 512 high byte first, the sequence number at offset 12, a
  zero physical port, \<open>(subnet << 4) | universe\<close> at offset 14 and the net at offset
  15. The decoder reads the byte at offset 14 and the payload, and gives every receiver
  that accepts the packet exactly the 512 values of the buffer; it does not read the
  sequence number or the net byte.
\<close>

theorem transmit_roundtrip:
  assumes "wf_sender s"
  shows "\<exists>pkt. transmit s = Inr (s\<lparr>ArtDmxSeq := (ArtDmxSeq s + 1) mod 256,
                                     sent := sent s @ [\<lparr>payload = pkt, dport = port (options s),
                                                        dest = ip4 s\<rparr>]\<rparr>)
           \<and> length pkt = 530
           \<and> take 12 pkt = [65, 114, 116, 45, 78, 101, 116, 0, 0, 0x50, 0, 14]
           \<and> parseInt_B pkt 12 = Some (ArtDmxSeq s) \<and> parseInt_B pkt 13 = Some 0
           \<and> parseInt_B pkt 14 = Some (port_subuni s)
           \<and> parseInt_B pkt 15 = Some (net (options s))
           \<and> parseInt_B pkt 16 = Some 2 \<and> parseInt_B pkt 17 = Some 0
           \<and> dmx_data pkt = values_of s
           \<and> (\<forall>I now h src.
                 on_message I now h pkt src =
                   Inr (h\<lparr>receivers :=
                           map (\<lambda>r. if r_port_address r = port_subuni s \<and> contains (ipnet r) src
                                     then receive r (values_of s) else r)
                               (receivers h)\<rparr>))"
proof -
  define pkt :: "byte list" where
    "pkt = [65, 114, 116, 45, 78, 101, 116, 0, 0, 0x50, 0, 14,
               word_of_int (clampv 255 (ArtDmxSeq s)), 0, word_of_int (clampv 255 (port_subuni s)),
               word_of_int (clampv 255 (net (options s))), 2, 0]
              @ map (\<lambda>v. word_of_int (clampv 255 v)) (values_of s)"
  from assms have len: "length (values_of s) = 512" and rdy: "socket_ready s"
    and vals: "list_all (\<lambda>v. 0 \<le> v \<and> v \<le> 255) (values_of s)"
    and rng: "0 \<le> ArtDmxSeq s" "ArtDmxSeq s \<le> 255" "0 \<le> port_subuni s" "port_subuni s \<le> 255"
             "0 \<le> net (options s)" "net (options s) \<le> 255"
    by (simp_all add: wf_sender_def)
  have tx: "transmit s = Inr (s\<lparr>ArtDmxSeq := (ArtDmxSeq s + 1) mod 256,
                                 sent := sent s @ [\<lparr>payload = pkt, dport = port (options s),
                                                    dest = ip4 s\<rparr>]\<rparr>)"
    unfolding transmit_def Pack_ArtDmx [OF len] pkt_def using rdy by simp
  have l: "length pkt = 530" using len by (simp add: pkt_def)
  have hd: "take 12 pkt = [65, 114, 116, 45, 78, 101, 116, 0, 0, 0x50, 0, 14]"
    by (simp add: pkt_def)
  have b: "parseInt_B pkt 12 = Some (ArtDmxSeq s)" "parseInt_B pkt 13 = Some 0"
    "parseInt_B pkt 14 = Some (port_subuni s)" "parseInt_B pkt 15 = Some (net (options s))"
    "parseInt_B pkt 16 = Some 2" "parseInt_B pkt 17 = Some 0"
    using rng len by (simp_all add: parseInt_B_eq uint_enB pkt_def)
  have d: "dmx_data pkt = values_of s"
    by (simp add: dmx_data_drop map_uint_enB [OF vals] pkt_def)
  have m: "on_message I now h pkt src =
             Inr (h\<lparr>receivers :=
                     map (\<lambda>r. if r_port_address r = port_subuni s \<and> contains (ipnet r) src
                               then receive r (values_of s) else r)
                         (receivers h)\<rparr>)" for I now h src
  proof -
    have "10 \<le> length pkt" "take 8 pkt = ArtNet_header" "pkt ! 8 = 0" "pkt ! 9 = 0x50"
      using l by (simp_all add: pkt_def ArtNet_header_def)
    from dataParser_ArtDmx [OF this] show ?thesis
      by (simp add: b d acceptPacket_def eq_commute)
  qed
  show ?thesis
    using tx l hd b d m by blast
qed

theorem transmit_roundtrip_witness:
  "wf_sender sender1
   \<and> (\<exists>pkt. transmit sender1 =
               Inr (sender1\<lparr>ArtDmxSeq := 0,
                            sent := [\<lparr>payload = pkt, dport = 6454, dest = Some (- 1)\<rparr>]\<rparr>)
            \<and> length pkt = 530 \<and> parseInt_B pkt 12 = Some 255 \<and> parseInt_B pkt 14 = Some 0x23
            \<and> parseInt_B pkt 15 = Some 1 \<and> dmx_data pkt = [7, 255] @ replicate 510 0)"
proof -
  have w: "wf_sender sender1"
    by (simp add: wf_sender_def sender1_def sender0_def sender_opts_def list_all_iff)
  from transmit_roundtrip [OF w] obtain pkt where
    "transmit sender1 = Inr (sender1\<lparr>ArtDmxSeq := (ArtDmxSeq sender1 + 1) mod 256,
                                      sent := sent sender1 @
                                        [\<lparr>payload = pkt, dport = port (options sender1),
                                          dest = ip4 sender1\<rparr>]\<rparr>)"
    "length pkt = 530" "parseInt_B pkt 12 = Some (ArtDmxSeq sender1)"
    "parseInt_B pkt 14 = Some (port_subuni sender1)"
    "parseInt_B pkt 15 = Some (net (options sender1))" "dmx_data pkt = values_of sender1"
    by blast
  then have "transmit sender1 =
               Inr (sender1\<lparr>ArtDmxSeq := 0,
                            sent := [\<lparr>payload = pkt, dport = 6454, dest = Some (- 1)\<rparr>]\<rparr>)
            \<and> length pkt = 530 \<and> parseInt_B pkt 12 = Some 255 \<and> parseInt_B pkt 14 = Some 0x23
            \<and> parseInt_B pkt 15 = Some 1 \<and> dmx_data pkt = [7, 255] @ replicate 510 0"
    by (simp add: sender1_def sender0_def sender_opts_def)
  with w show ?thesis by blast
qed

text \<open>
  Claim C2 as stated speaks of every channel array of length 1 to 512. A buffer of one
  entry cannot be encoded: \<open>jspack.Pack\<close> needs 512 values for \<open>'512B'\<close> and returns
  \<open>false\<close>, and \<open>Buffer.from(false)\<close> throws, so no packet is sent.
\<close>

theorem transmit_short_buffer_counterexample:
  "transmit (sender0\<lparr>values_of := [7]\<rparr>) = Inl (buffer_from_failed, sender0\<lparr>values_of := [7]\<rparr>)
   \<and> sent (sender0\<lparr>values_of := [7]\<rparr>) = []"
  by (simp add: transmit_def sender0_def Pack_def ArtDmxFormat_def)

section \<open>Dispatch of ArtDmx to the receivers\<close>

lemma calc_small: "calc_address 1 0 3 = (1, 0, 3, 3, 259)" "calc_address 0 0 0 = (0, 0, 0, 0, 0)"
  "calc_address 0 0 3 = (0, 0, 3, 3, 3)"
  by (simp_all add: calc_address_def js_shr_def js_and_def js_or_def js_shl_def ToInt32_def)

lemma contains_all: "contains (Netmask_of 0 0) a"
  by (simp add: contains_def Netmask_of_def maskLong_def)

lemma ifc0_simps: "ip ifc0 = dotted 10 0 0 1" "mac ifc0 = [2, 0, 0, 0, 0, 1]"
  by (simp_all add: ifc0_def)

lemma Receiver_new_examples:
  "Receiver_new [ifc0] (receiver_opts 1 0 3) = Inr (receiver_on 1 0 3)"
  "Receiver_new [ifc0] (receiver_opts 0 0 0) = Inr (receiver_on 0 0 0)"
  "Receiver_new [ifc0] \<lparr>net = 0, subnet = 0, universe = 3,
                          from_cidr = Some (dotted 10 0 0 5, None)\<rparr> = Inr receiver_5"
  by (simp_all add: Receiver_new_def Netmask_new_def receiver_opts_def receiver_on_def calc_small contains_all
        receiver_5_def contains_def Netmask_of_def maskLong_def ifc0_simps dotted_def)

text \<open>
  Claim C1 at a receiver on net 1. The receiver that \<open>new Receiver\<close> builds for net 1,
  universe 3 has port address 259, whose low byte is 3, and accepts every source
  address. An ArtDmx packet for net 1, universe 3 carries 3 at offset 14 and 1 at offset
  15. \<open>acceptPacket\<close> compares the byte at offset 14 with the whole port address, so
  the packet is delivered to no receiver and the engine is left as it was.
\<close>

theorem receiver_on_net_1_rejects_its_universe:
  "Receiver_new [ifc0] (receiver_opts 1 0 3) = Inr (receiver_on 1 0 3)
   \<and> r_port_address (receiver_on 1 0 3) mod 256 = 3
   \<and> parseInt_B dmx_net1 14 = Some 3 \<and> parseInt_B dmx_net1 15 = Some 1
   \<and> contains (ipnet (receiver_on 1 0 3)) (dotted 10 0 0 5)
   \<and> on_message [ifc0] 0 (engine0\<lparr>receivers := [receiver_on 1 0 3]\<rparr>) dmx_net1 (dotted 10 0 0 5)
       = Inr (engine0\<lparr>receivers := [receiver_on 1 0 3]\<rparr>)"
proof -
  have "10 \<le> length dmx_net1" "take 8 dmx_net1 = ArtNet_header" "dmx_net1 ! 8 = 0"
    "dmx_net1 ! 9 = 0x50"
    by (simp_all add: dmx_net1_def ArtNet_header_def)
  from dataParser_ArtDmx [OF this]
  have "on_message [ifc0] 0 (engine0\<lparr>receivers := [receiver_on 1 0 3]\<rparr>) dmx_net1 (dotted 10 0 0 5)
       = Inr (engine0\<lparr>receivers := [receiver_on 1 0 3]\<rparr>)"
    by (simp add: acceptPacket_def parseInt_B_eq dmx_net1_def ArtNet_header_def receiver_on_def)
  moreover have "r_port_address (receiver_on 1 0 3) mod 256 = 3"
    "contains (ipnet (receiver_on 1 0 3)) (dotted 10 0 0 5)"
    by (simp_all add: receiver_on_def contains_all)
  moreover have "parseInt_B dmx_net1 14 = Some 3" "parseInt_B dmx_net1 15 = Some 1"
    by (simp_all add: parseInt_B_eq dmx_net1_def ArtNet_header_def)
  ultimately show ?thesis
    using Receiver_new_examples(1) by simp
qed

text \<open>
  On net 0 the port address is its own low byte, and there the example of the claim
  holds: the receiver with \<open>from = "10.0.0.5"\<close> on universe 3 accepts the byte 3 from
  10.0.0.5 and rejects it from 10.0.0.6, and rejects the byte 4.
\<close>

lemma receiver_filter_example:
  "acceptPacket receiver_5 (Some 3) \<lparr>address = dotted 10 0 0 5, family = ''IPv4'', size = 530\<rparr>"
  "\<not> acceptPacket receiver_5 (Some 3) \<lparr>address = dotted 10 0 0 6, family = ''IPv4'', size = 530\<rparr>"
  "\<not> acceptPacket receiver_5 (Some 4) \<lparr>address = dotted 10 0 0 5, family = ''IPv4'', size = 530\<rparr>"
  by (simp_all add: acceptPacket_def receiver_5_def contains_def Netmask_of_def maskLong_def
        dotted_def)

text \<open>
  For a buffer of 18 bytes or more the payload that \<open>dataParser\<close> reads has the size
  of the buffer less 18, and the port address is the byte at offset 14.
\<close>

lemma dmx_data_length: "length (dmx_data msg) = length msg - 18"
  by (simp add: dmx_data_drop)

lemma p_address_offset_14: "14 < length msg \<Longrightarrow> parseInt_B msg 14 = Some (uint (msg ! 14))"
  by (simp add: parseInt_B_eq)

text \<open>
  Claim C5 at a buffer of 15 bytes. \<open>dataParser\<close> has no size check in the ArtDmx
  case beyond the 10 bytes of the header: the 15-byte packet for universe 0 is accepted
  by the receiver on universe 0, which receives the empty array in place of its 512
  values and emits a \<open>'data'\<close> event for it.
\<close>

theorem short_ArtDmx_is_delivered:
  "length dmx15 = 15
   \<and> on_message [ifc0] 0 (engine0\<lparr>receivers := [receiver_on 0 0 0]\<rparr>) dmx15 (dotted 10 0 0 5)
       = Inr (engine0\<lparr>receivers := [(receiver_on 0 0 0)\<lparr>r_values := [], data_events := [[]]\<rparr>]\<rparr>)"
proof -
  have "10 \<le> length dmx15" "take 8 dmx15 = ArtNet_header" "dmx15 ! 8 = 0" "dmx15 ! 9 = 0x50"
    by (simp_all add: dmx15_def ArtNet_header_def)
  from dataParser_ArtDmx [OF this]
  show ?thesis
    by (simp add: acceptPacket_def parseInt_B_eq dmx15_def ArtNet_header_def receiver_on_def
          contains_all dmx_data_drop receive_def)
qed

section \<open>ArtPollReply\<close>

lemma length_enS [simp]: "length (enS n s) = n"
  by (simp add: enS_def)

lemma list6:
  assumes "length xs = 6"
  obtains a b c d e f where "xs = [a, b, c, d, e, f]"
proof -
  from assms obtain a xs1 where 1: "xs = a # xs1" "length xs1 = 5" by (cases xs) auto
  then obtain b xs2 where 2: "xs1 = b # xs2" "length xs2 = 4" by (cases xs1) auto
  then obtain c xs3 where 3: "xs2 = c # xs3" "length xs3 = 3" by (cases xs2) auto
  then obtain d xs4 where 4: "xs3 = d # xs4" "length xs4 = 2" by (cases xs3) auto
  then obtain e xs5 where 5: "xs4 = e # xs5" "length xs5 = 1" by (cases xs4) auto
  then obtain f xs6 where 6: "xs5 = f # xs6" "length xs6 = 0" by (cases xs5) auto
  with 1 2 3 4 5 that show thesis by simp
qed

lemma createPacket_ok:
  assumes "length (mac ifc) = 6" "devices \<noteq> []"
  shows "\<exists>pkt. createPacket h ifc devices bi = Inr pkt \<and> length pkt = 214
           \<and> pkt ! 213 = word_of_int (clampv 255 bi)
           \<and> pkt ! 172 = 0 \<and> pkt ! 173 = word_of_int (min (int (length devices)) 4)"
proof -
  from assms(1) obtain m1 m2 m3 m4 m5 m6 where m: "mac ifc = [m1, m2, m3, m4, m5, m6]"
    by (rule list6)
  from assms(2) obtain d0 ds where d: "devices = d0 # ds" by (cases devices) auto
  obtain pt gi go si so where
    f: "fold add_port (zip (take 4 devices) [0..3]) (0, 0, 0, 0, 0) = (pt, gi, go, si, so)"
    by (metis prod_cases5)
  show ?thesis
    unfolding createPacket_def Let_def f m
    by (simp add: d Pack_def ArtPollReplyFormat_def octets_def nth_append)
       (simp add: clampv_def min_def)
qed

lemma foreach_two:
  "foreach [a, b] f s = then_do (f a s) (\<lambda>s'. f b s')"
  by (cases "f a s") (auto simp: then_do_def split: sum.splits)

text \<open>
  Claim C7. With six senders that share one interface, net and subnet, and no
  receivers, one call of \<open>ArtPollReply\<close> sends exactly two packets, to the broadcast
  address of the interface on port 6454: the first has bind index 0 (the last byte) and
  4 in the two bytes of the port count, the second bind index 1 and port count 2. The
  reply counter goes up by one modulo 10000 and the time of the call is recorded, once
  for the call.
\<close>

theorem pollReply_six_senders:
  assumes snd: "senders h = [s1, s2, s3, s4, s5, s6]" and rcv: "receivers h = []"
    and shared: "\<forall>s \<in> set (senders h).
                   interfaces s = [ifc] \<and> net (options s) = n \<and> subnet (options s) = sn"
    and mac: "length (mac ifc) = 6"
  shows "\<exists>p0 p1.
           ArtPollReply now h =
             Inr (h\<lparr>h_sent := h_sent h @
                                [\<lparr>payload = p0, dport = 6454, dest = broadcast_of (netmask ifc)\<rparr>,
                                 \<lparr>payload = p1, dport = 6454, dest = broadcast_of (netmask ifc)\<rparr>],
                     artPollReplyCount := (artPollReplyCount h + 1) mod 10000,
                     last_poll_reply := now\<rparr>)
           \<and> length p0 = 214 \<and> length p1 = 214
           \<and> p0 ! 213 = 0 \<and> p1 ! 213 = 1
           \<and> p0 ! 172 = 0 \<and> p0 ! 173 = 4 \<and> p1 ! 172 = 0 \<and> p1 ! 173 = 2"
proof -
  let ?ds = "map ASender [s1, s2, s3, s4, s5, s6]"
  let ?g = "\<lparr>g_iface = ifc, g_net = n, g_subnet = sn, g_devices = ?ds\<rparr>"
  have grp: "group_devices (map ASender (senders h) @ map AReceiver (receivers h))
             = [((ip ifc, n, sn), ?g)]"
    using shared by (simp add: snd rcv group_devices_def)
  define h1 where "h1 = h"
  obtain p0 where p0: "createPacket h ifc (map ASender [s1, s2, s3, s4]) 0 = Inr p0"
    "length p0 = 214" "p0 ! 213 = 0" "p0 ! 172 = 0" "p0 ! 173 = 4"
    using createPacket_ok [of ifc "map ASender [s1, s2, s3, s4]" h 0] mac
    by (auto simp: clampv_def)
  let ?h1 = "h\<lparr>h_sent := h_sent h @
                     [\<lparr>payload = p0, dport = 6454, dest = broadcast_of (netmask ifc)\<rparr>]\<rparr>"
  obtain p1 where p1: "createPacket ?h1 ifc (map ASender [s5, s6]) 1 = Inr p1"
    "length p1 = 214" "p1 ! 213 = 1" "p1 ! 172 = 0" "p1 ! 173 = 2"
    using createPacket_ok [of ifc "map ASender [s5, s6]" ?h1 1] mac
    by (auto simp: clampv_def)
  have r0: "send_reply ?g 0 h = Inr ?h1"
    using p0(1) by (simp add: send_reply_def)
  have r1: "send_reply ?g 1 ?h1 =
              Inr (h\<lparr>h_sent := h_sent h @
                     [\<lparr>payload = p0, dport = 6454, dest = broadcast_of (netmask ifc)\<rparr>,
                      \<lparr>payload = p1, dport = 6454, dest = broadcast_of (netmask ifc)\<rparr>]\<rparr>)"
    using p1(1) by (simp add: send_reply_def)
  have two: "[0..<(length ?ds + 3) div 4] = [0, 1]"
    by (simp add: upt_rec)
  have sg: "send_group ?g h =
              Inr (h\<lparr>h_sent := h_sent h @
                     [\<lparr>payload = p0, dport = 6454, dest = broadcast_of (netmask ifc)\<rparr>,
                      \<lparr>payload = p1, dport = 6454, dest = broadcast_of (netmask ifc)\<rparr>]\<rparr>)"
    unfolding send_group_def Let_def dgroup.simps two foreach_two r0
    using r1 by (simp add: then_do_def)
  have "ArtPollReply now h =
             Inr (h\<lparr>h_sent := h_sent h @
                                [\<lparr>payload = p0, dport = 6454, dest = broadcast_of (netmask ifc)\<rparr>,
                                 \<lparr>payload = p1, dport = 6454, dest = broadcast_of (netmask ifc)\<rparr>],
                     artPollReplyCount := (artPollReplyCount h + 1) mod 10000,
                     last_poll_reply := now\<rparr>)"
    unfolding ArtPollReply_def grp using sg by (simp add: then_do_def)
  with p0 p1 show ?thesis by blast
qed

theorem pollReply_six_senders_witness:
  "\<exists>p0 p1.
     ArtPollReply 1000 engine6 =
       Inr (engine6\<lparr>h_sent := [\<lparr>payload = p0, dport = 6454, dest = broadcast_of (netmask ifc0)\<rparr>,
                                \<lparr>payload = p1, dport = 6454, dest = broadcast_of (netmask ifc0)\<rparr>],
                    artPollReplyCount := 1, last_poll_reply := 1000\<rparr>)
     \<and> length p0 = 214 \<and> length p1 = 214 \<and> p0 ! 213 = 0 \<and> p1 ! 213 = 1
     \<and> p0 ! 172 = 0 \<and> p0 ! 173 = 4 \<and> p1 ! 172 = 0 \<and> p1 ! 173 = 2"
  using pollReply_six_senders [of engine6 "sender_on 0" "sender_on 1" "sender_on 2" "sender_on 3"
                                  "sender_on 4" "sender_on 5" ifc0 0 0 1000]
  by (simp add: engine6_def engine0_def sender_on_def sender0_def sender_opts_def ifc0_def)

section \<open>ArtPoll: decoding and the reply\<close>

lemma dataParser_ArtPoll:
  assumes "14 \<le> length msg" "take 8 msg = ArtNet_header" "msg ! 8 = 0" "msg ! 9 = 0x20"
    and "14 \<le> uint (msg ! 10) + uint (msg ! 11) * 256"
  shows "on_message I now h msg src =
           ArtPollReply now
             (upsert_controller
                (make_controller msg \<lparr>address = src, family = ''IPv4'', size = length msg\<rparr> now) h)"
proof -
  have u: "Unpack [Fs 8] msg 0 = Some [Str (''Art-Net'' @ [CHR 0x00])]"
    using assms Unpack_header [of msg] by simp
  show ?thesis
    unfolding on_message_def dataParser_def u
    using assms by (simp add: parseInt_B_eq add_opt_def or_zero_def Let_def)
qed

lemma dataParser_ArtPoll_rejected:
  assumes "10 \<le> length msg" "take 8 msg = ArtNet_header" "msg ! 8 = 0" "msg ! 9 = 0x20"
    and "length msg < 14 \<or> uint (msg ! 10) + uint (msg ! 11) * 256 < 14"
  shows "on_message I now h msg src = Inr h"
proof -
  have u: "Unpack [Fs 8] msg 0 = Some [Str (''Art-Net'' @ [CHR 0x00])]"
    using assms Unpack_header [of msg] by simp
  show ?thesis
    unfolding on_message_def dataParser_def u
    using assms by (auto simp: parseInt_B_eq add_opt_def or_zero_def Let_def)
qed

lemma foreach_preserves:
  assumes "\<And>x s s'. f x s = Inr s' \<Longrightarrow> P s \<Longrightarrow> P s'"
  shows "foreach xs f s = Inr s' \<Longrightarrow> P s \<Longrightarrow> P s'"
proof (induction xs arbitrary: s)
  case Nil
  then show ?case by simp
next
  case (Cons x xs)
  from Cons.prems(1) obtain s1 where 1: "f x s = Inr s1" and 2: "foreach xs f s1 = Inr s'"
    by (auto simp: then_do_def split: sum.splits)
  from assms [OF 1 Cons.prems(2)] have "P s1" .
  with Cons.IH [OF 2] show ?case .
qed

lemma send_group_only_sends:
  assumes "send_group g s = Inr s'" "\<exists>xs. s = h\<lparr>h_sent := xs\<rparr>"
  shows "\<exists>xs. s' = h\<lparr>h_sent := xs\<rparr>"
proof -
  have step: "\<And>i s s'. send_reply g i s = Inr s' \<Longrightarrow> \<exists>xs. s = h\<lparr>h_sent := xs\<rparr>
                \<Longrightarrow> \<exists>xs. s' = h\<lparr>h_sent := xs\<rparr>"
    by (auto simp: send_reply_def split: sum.splits)
  from assms(1) have run: "foreach [0..<(length (g_devices g) + 3) div 4] (send_reply g) s = Inr s'"
    by (simp add: send_group_def Let_def)
  show ?thesis
    by (rule foreach_preserves [where P = "\<lambda>s. \<exists>xs. s = h\<lparr>h_sent := xs\<rparr>",
                                OF step run assms(2)])
qed

lemma ArtPollReply_result:
  assumes "ArtPollReply now h = Inr h'"
  shows "\<exists>xs. h' = h\<lparr>h_sent := xs, artPollReplyCount := (artPollReplyCount h + 1) mod 10000,
                        last_poll_reply := now\<rparr>"
proof -
  from assms obtain h1 where
    1: "foreach (map snd (group_devices (map ASender (senders h) @ map AReceiver (receivers h))))
                send_group h = Inr h1"
    and 2: "h' = h1\<lparr>artPollReplyCount := (artPollReplyCount h1 + 1) mod 10000,
                      last_poll_reply := now\<rparr>"
    by (auto simp: ArtPollReply_def then_do_def split: sum.splits)
  have 0: "\<exists>xs. h = h\<lparr>h_sent := xs\<rparr>" by (rule exI [of _ "h_sent h"]) simp
  have "\<exists>xs. h1 = h\<lparr>h_sent := xs\<rparr>"
    by (rule foreach_preserves [where P = "\<lambda>s. \<exists>xs. s = h\<lparr>h_sent := xs\<rparr>",
                                 OF send_group_only_sends 1 0])
  with 2 show ?thesis by auto
qed

lemma ArtPollReply_one_sender:
  assumes "senders h = [s]" "receivers h = []" "interfaces s = [ifc]" "length (mac ifc) = 6"
  shows "\<exists>p. ArtPollReply now h =
               Inr (h\<lparr>h_sent := h_sent h @
                         [\<lparr>payload = p, dport = 6454, dest = broadcast_of (netmask ifc)\<rparr>],
                       artPollReplyCount := (artPollReplyCount h + 1) mod 10000,
                       last_poll_reply := now\<rparr>)
             \<and> length p = 214 \<and> p ! 213 = 0"
proof -
  let ?g = "\<lparr>g_iface = ifc, g_net = net (options s), g_subnet = subnet (options s),
             g_devices = [ASender s]\<rparr>"
  have grp: "group_devices (map ASender (senders h) @ map AReceiver (receivers h))
             = [((ip ifc, net (options s), subnet (options s)), ?g)]"
    using assms by (simp add: group_devices_def)
  obtain p where p: "createPacket h ifc [ASender s] 0 = Inr p" "length p = 214" "p ! 213 = 0"
    using createPacket_ok [of ifc "[ASender s]" h 0] assms(4) by (auto simp: clampv_def)
  have sg: "send_group ?g h =
              Inr (h\<lparr>h_sent := h_sent h @
                     [\<lparr>payload = p, dport = 6454, dest = broadcast_of (netmask ifc)\<rparr>]\<rparr>)"
    using p(1) by (simp add: send_group_def send_reply_def then_do_def)
  have "ArtPollReply now h =
               Inr (h\<lparr>h_sent := h_sent h @
                         [\<lparr>payload = p, dport = 6454, dest = broadcast_of (netmask ifc)\<rparr>],
                       artPollReplyCount := (artPollReplyCount h + 1) mod 10000,
                       last_poll_reply := now\<rparr>)"
    unfolding ArtPollReply_def grp using sg by (simp add: then_do_def)
  with p show ?thesis by blast
qed

text \<open>
  Claim C6 at an ArtPoll of protocol version 1. The 14-byte ArtPoll whose version field,
  high byte first, is 1 has the bytes 0 and 1 at offsets 10 and 11. \<open>dataParser\<close>
  reads the field low byte first, as 256, so the packet passes the check against 14: the
  controller is inserted, an ArtPollReply is sent for the sender, and the reply counter
  and the time of the last reply are updated.
\<close>

theorem ArtPoll_version_1_is_answered:
  "length poll_v1 = 14 \<and> uint (poll_v1 ! 10) * 256 + uint (poll_v1 ! 11) = 1
   \<and> (\<exists>p. on_message [ifc0] 1000 (engine0\<lparr>senders := [sender0]\<rparr>) poll_v1 (dotted 10 0 0 9) =
             Inr (engine0\<lparr>senders := [sender0],
                         controllers :=
                           [\<lparr>c_ip = dotted 10 0 0 9, c_family = ''IPv4'', last_poll = 1000,
                             alive = True, diagnostic_unicast = False, diagnostic_enable = False,
                             unilateral = False, priority = Some 0\<rparr>],
                         h_sent := [\<lparr>payload = p, dport = 6454,
                                     dest = broadcast_of (netmask ifc0)\<rparr>],
                         artPollReplyCount := 1, last_poll_reply := 1000\<rparr>)
          \<and> length p = 214)"
proof -
  let ?h1 = "upsert_controller
               (make_controller poll_v1
                  \<lparr>address = dotted 10 0 0 9, family = ''IPv4'', size = length poll_v1\<rparr> 1000)
               (engine0\<lparr>senders := [sender0]\<rparr>)"
  have "14 \<le> length poll_v1" "take 8 poll_v1 = ArtNet_header" "poll_v1 ! 8 = 0"
    "poll_v1 ! 9 = 0x20" "14 \<le> uint (poll_v1 ! 10) + uint (poll_v1 ! 11) * 256"
    by (simp_all add: poll_v1_def ArtNet_header_def)
  from dataParser_ArtPoll [OF this]
  have 1: "on_message [ifc0] 1000 (engine0\<lparr>senders := [sender0]\<rparr>) poll_v1 (dotted 10 0 0 9)
           = ArtPollReply 1000 ?h1" .
  have h1: "?h1 = engine0\<lparr>senders := [sender0],
                         controllers :=
                           [\<lparr>c_ip = dotted 10 0 0 9, c_family = ''IPv4'', last_poll = 1000,
                             alive = True, diagnostic_unicast = False, diagnostic_enable = False,
                             unilateral = False, priority = Some 0\<rparr>]\<rparr>"
    by (simp add: upsert_controller_def make_controller_def engine0_def parseInt_B_eq poll_v1_def
          ArtNet_header_def or_zero_def js_and_def ToInt32_def)
  have "senders ?h1 = [sender0]" "receivers ?h1 = []" "interfaces sender0 = [ifc0]"
    "length (mac ifc0) = 6"
    unfolding h1 by (simp_all add: engine0_def sender0_def ifc0_def)
  from ArtPollReply_one_sender [OF this, of 1000] obtain p where
    "ArtPollReply 1000 ?h1 =
       Inr (?h1\<lparr>h_sent := h_sent ?h1 @
                   [\<lparr>payload = p, dport = 6454, dest = broadcast_of (netmask ifc0)\<rparr>],
                artPollReplyCount := (artPollReplyCount ?h1 + 1) mod 10000,
                last_poll_reply := 1000\<rparr>)" "length p = 214"
    by blast
  then have "on_message [ifc0] 1000 (engine0\<lparr>senders := [sender0]\<rparr>) poll_v1 (dotted 10 0 0 9) =
             Inr (engine0\<lparr>senders := [sender0],
                         controllers :=
                           [\<lparr>c_ip = dotted 10 0 0 9, c_family = ''IPv4'', last_poll = 1000,
                             alive = True, diagnostic_unicast = False, diagnostic_enable = False,
                             unilateral = False, priority = Some 0\<rparr>],
                         h_sent := [\<lparr>payload = p, dport = 6454,
                                     dest = broadcast_of (netmask ifc0)\<rparr>],
                         artPollReplyCount := 1, last_poll_reply := 1000\<rparr>)
          \<and> length p = 214"
    unfolding 1 h1 by (simp add: engine0_def)
  then show ?thesis
    by (auto simp: poll_v1_def ArtNet_header_def)
qed

lemma ArtPoll_packet:
  "Pack ArtPollFormat [Str ''Art-Net'', Num 0, Num 0x0020, Num 14, Num 0, Num 0] = Some poll_v14"
  by (simp add: Pack_def ArtPollFormat_def enS_def clampv_def poll_v14_def ArtNet_header_def)

section \<open>The poll timer\<close>

text \<open>
  Claim C9. The callback of the poll timer sends nothing and changes nothing when the
  last ArtPollReply was sent less than \<open>poll_interval / 2\<close> milliseconds before. A
  call of \<open>ArtPollReply\<close> at time \<open>t\<close> records \<open>t\<close>, and so does an ArtPoll that
  \<open>dataParser\<close> accepts at time \<open>t\<close>, since it is answered at once: a timer callback
  at a time \<open>t'\<close> with \<open>t' - t < poll_interval / 2\<close> is then skipped.
\<close>

theorem poll_skipped_after_recent_reply:
  "(2 * (now - last_poll_reply h) < poll_interval (h_options h) \<longrightarrow> poll_timer now h = Inr h)
   \<and> (ArtPollReply t h = Inr h1 \<and> 2 * (t' - t) < poll_interval (h_options h) \<longrightarrow>
        last_poll_reply h1 = t \<and> poll_timer t' h1 = Inr h1)
   \<and> (14 \<le> length msg \<and> take 8 msg = ArtNet_header \<and> msg ! 8 = 0 \<and> msg ! 9 = 0x20
        \<and> 14 \<le> uint (msg ! 10) + uint (msg ! 11) * 256
        \<and> on_message I t h msg src = Inr h2 \<and> 2 * (t' - t) < poll_interval (h_options h) \<longrightarrow>
        last_poll_reply h2 = t \<and> poll_timer t' h2 = Inr h2)"
proof (intro conjI impI)
  assume "2 * (now - last_poll_reply h) < poll_interval (h_options h)"
  then show "poll_timer now h = Inr h" by (simp add: poll_timer_def)
next
  assume a: "ArtPollReply t h = Inr h1 \<and> 2 * (t' - t) < poll_interval (h_options h)"
  then obtain xs where "h1 = h\<lparr>h_sent := xs, artPollReplyCount := (artPollReplyCount h + 1) mod 10000,
                                 last_poll_reply := t\<rparr>"
    using ArtPollReply_result by blast
  with a show "last_poll_reply h1 = t" "poll_timer t' h1 = Inr h1"
    by (simp_all add: poll_timer_def)
next
  assume a: "14 \<le> length msg \<and> take 8 msg = ArtNet_header \<and> msg ! 8 = 0 \<and> msg ! 9 = 0x20
        \<and> 14 \<le> uint (msg ! 10) + uint (msg ! 11) * 256
        \<and> on_message I t h msg src = Inr h2 \<and> 2 * (t' - t) < poll_interval (h_options h)"
  let ?h = "upsert_controller
              (make_controller msg \<lparr>address = src, family = ''IPv4'', size = length msg\<rparr> t) h"
  from a have "ArtPollReply t ?h = Inr h2"
    using dataParser_ArtPoll [of msg I t h src] by simp
  then obtain xs where "h2 = ?h\<lparr>h_sent := xs,
                                  artPollReplyCount := (artPollReplyCount ?h + 1) mod 10000,
                                  last_poll_reply := t\<rparr>"
    using ArtPollReply_result by blast
  moreover have "h_options ?h = h_options h"
    by (simp add: upsert_controller_def)
  ultimately show "last_poll_reply h2 = t" "poll_timer t' h2 = Inr h2"
    using a by (simp_all add: poll_timer_def)
qed

theorem poll_skipped_after_recent_reply_witness:
  "poll_timer 5400 (engine0\<lparr>last_poll_reply := 5000\<rparr>) = Inr (engine0\<lparr>last_poll_reply := 5000\<rparr>)
   \<and> (\<exists>h1. ArtPollReply 5000 engine0 = Inr h1 \<and> last_poll_reply h1 = 5000
             \<and> poll_timer 5400 h1 = Inr h1)
   \<and> (\<exists>h2. on_message [ifc0] 5000 engine0 poll_v14 (dotted 10 0 0 9) = Inr h2
             \<and> last_poll_reply h2 = 5000 \<and> poll_timer 5400 h2 = Inr h2)"
proof -
  have p: "14 \<le> length poll_v14" "take 8 poll_v14 = ArtNet_header" "poll_v14 ! 8 = 0"
    "poll_v14 ! 9 = 0x20" "14 \<le> uint (poll_v14 ! 10) + uint (poll_v14 ! 11) * 256"
    by (simp_all add: poll_v14_def ArtNet_header_def)
  let ?h = "upsert_controller
              (make_controller poll_v14
                 \<lparr>address = dotted 10 0 0 9, family = ''IPv4'', size = length poll_v14\<rparr> 5000)
              engine0"
  have "on_message [ifc0] 5000 engine0 poll_v14 (dotted 10 0 0 9) = ArtPollReply 5000 ?h"
    by (rule dataParser_ArtPoll [OF p])
  also have "\<dots> = Inr (?h\<lparr>artPollReplyCount := 1, last_poll_reply := 5000\<rparr>)"
    by (simp add: ArtPollReply_def upsert_controller_def engine0_def group_devices_def then_do_def)
  finally have r: "on_message [ifc0] 5000 engine0 poll_v14 (dotted 10 0 0 9)
                   = Inr (?h\<lparr>artPollReplyCount := 1, last_poll_reply := 5000\<rparr>)" .
  have q: "ArtPollReply 5000 engine0
           = Inr (engine0\<lparr>artPollReplyCount := 1, last_poll_reply := 5000\<rparr>)"
    by (simp add: ArtPollReply_def engine0_def group_devices_def then_do_def)
  have i: "2 * (5400 - 5000) < poll_interval (h_options engine0)"
    "2 * (5400 - last_poll_reply (engine0\<lparr>last_poll_reply := 5000\<rparr>))
       < poll_interval (h_options (engine0\<lparr>last_poll_reply := 5000\<rparr>))"
    by (simp_all add: engine0_def opts0_def)
  from poll_skipped_after_recent_reply
         [where t = 5000 and h = engine0 and t' = 5400 and msg = poll_v14 and I = "[ifc0]"
            and src = "dotted 10 0 0 9"
            and ?h1.0 = "engine0\<lparr>artPollReplyCount := 1, last_poll_reply := 5000\<rparr>"
            and ?h2.0 = "?h\<lparr>artPollReplyCount := 1, last_poll_reply := 5000\<rparr>"] p r q i(1)
  have "\<exists>h1. ArtPollReply 5000 engine0 = Inr h1 \<and> last_poll_reply h1 = 5000
             \<and> poll_timer 5400 h1 = Inr h1"
    and "\<exists>h2. on_message [ifc0] 5000 engine0 poll_v14 (dotted 10 0 0 9) = Inr h2
             \<and> last_poll_reply h2 = 5000 \<and> poll_timer 5400 h2 = Inr h2"
    by blast+
  moreover from poll_skipped_after_recent_reply
         [where now = 5400 and h = "engine0\<lparr>last_poll_reply := 5000\<rparr>"] i(2)
  have "poll_timer 5400 (engine0\<lparr>last_poll_reply := 5000\<rparr>) = Inr (engine0\<lparr>last_poll_reply := 5000\<rparr>)"
    by blast
  ultimately show ?thesis by blast
qed

text \<open>When no reply was sent that recently, the callback does send the ArtPoll.\<close>

lemma poll_sent_when_no_recent_reply:
  "h_socket_ready h \<Longrightarrow> \<not> 2 * (now - last_poll_reply h) < poll_interval (h_options h) \<Longrightarrow>
   poll_timer now h =
     Inr (h\<lparr>h_sent := h_sent h @ [\<lparr>payload = poll_v14, dport = h_port (h_options h),
                                     dest = pollTo h\<rparr>]\<rparr>)"
  by (simp add: poll_timer_def ArtPoll_def ArtPoll_packet)

section \<open>ArtPollReply: decoding\<close>

lemma ArtNet_chars:
  "char_of (65::nat) = CHR ''A''" "char_of (114::nat) = CHR ''r''" "char_of (116::nat) = CHR ''t''"
  "char_of (45::nat) = CHR ''-''" "char_of (78::nat) = CHR ''N''" "char_of (101::nat) = CHR ''e''"
  by code_simp+

lemma reply_pkt_unpacked:
  "\<exists>sn ln nr. Unpack ArtPollReplyFormat reply_pkt 0 =
     Some ([Str ''Art-Net'', Num 0, Num 33, Num 10, Num 0, Num 0, Num 7, Num 6454,
            Num 1, Num 0, Num 0, Num 10504, Num 0, Num 208, Num 0, Str sn, Str ln, Str nr,
            Num 4, Num 128, Num 128, Num 128, Num 128, Num 255, Num 255, Num 255,
            Num 0, Num 0, Num 0, Num 0, Num 0, Num 1, Num 2, Num 3, Num 4, Num 0,
            Num 0, Num 0, Num 0, Num 0, Num 0, Num 0, Num 0, Num 2, Num 0, Num 0,
            Num 0, Num 0, Num 7, Num 10, Num 0, Num 0, Num 7, Num 0, Num 0, Num 0])"
  by (simp add: reply_pkt_def ArtNet_header_def ArtPollReplyFormat_def deS_def ArtNet_chars)

lemma dataParser_ArtPollReply:
  assumes "214 \<le> length msg" "take 8 msg = ArtNet_header" "msg ! 8 = 0" "msg ! 9 = 0x21"
    and "Unpack ArtPollReplyFormat msg 0 = Some unpacked"
    and "\<not> list_ex (\<lambda>i. ip i = src) I"
  shows "on_message I now h msg src =
           Inr (snd (upsertNode I now
                       (parse_ports
                          (make_apr msg \<lparr>address = src, family = ''IPv4'', size = length msg\<rparr>
                             unpacked)) h))"
proof -
  have u: "Unpack [Fs 8] msg 0 = Some [Str (''Art-Net'' @ [CHR 0x00])]"
    using assms Unpack_header [of msg] by simp
  have a: "a_ip (make_apr msg \<lparr>address = src, family = ''IPv4'', size = length msg\<rparr> unpacked) = src"
    by (simp add: make_apr_def)
  show ?thesis
    unfolding on_message_def dataParser_def u assms(5)
    using assms(1-4,6) by (simp add: parseInt_B_eq add_opt_def Let_def a)
qed

lemma contains_ifc0: "contains (netmask ifc0) (dotted 10 0 0 7)"
  by (simp add: ifc0_def contains_def Netmask_of_def maskLong_def dotted_def mask_eq_exp_minus_1)

text \<open>
  Claim C3 at a reply with four input ports. The input-universe array of the packet is
  01 02 03 04 and the good-input array ff ff ff 00. \<open>dataParser\<close> joins the four
  bytes of each array into one 32-bit number and takes the universe of port slot \<open>i\<close>
  from the nibble at bit \<open>28 - 4 * i\<close> and the good flag from bit \<open>i\<close>, that is
  from the first two bytes of the universe array and from the last byte of the flag
  array: the node is recorded with the universes 0, 1, 0, 2 for the ports 0 to 3, none
  of them good.
\<close>

theorem ArtPollReply_ports_decoded:
  "length reply_pkt = 214
   \<and> take 4 (drop 174 reply_pkt) = [0x80, 0x80, 0x80, 0x80]
   \<and> take 4 (drop 178 reply_pkt) = [0xFF, 0xFF, 0xFF, 0x00]
   \<and> take 4 (drop 186 reply_pkt) = [1, 2, 3, 4]
   \<and> (\<exists>n. on_message [ifc0] 0 engine0 reply_pkt (dotted 10 0 0 7) =
             Inr (engine0\<lparr>nodes := [([2, 0, 0, 0, 0, 7], n)], node_updates := [n]\<rparr>)
          \<and> map (\<lambda>(k, p). (k, p_universe p, isGood p)) (inPorts n)
              = [(0, 0, False), (1, 1, False), (2, 0, False), (3, 2, False)])"
proof -
  from reply_pkt_unpacked obtain sn ln nr where
    u: "Unpack ArtPollReplyFormat reply_pkt 0 =
     Some ([Str ''Art-Net'', Num 0, Num 33, Num 10, Num 0, Num 0, Num 7, Num 6454,
            Num 1, Num 0, Num 0, Num 10504, Num 0, Num 208, Num 0, Str sn, Str ln, Str nr,
            Num 4, Num 128, Num 128, Num 128, Num 128, Num 255, Num 255, Num 255,
            Num 0, Num 0, Num 0, Num 0, Num 0, Num 1, Num 2, Num 3, Num 4, Num 0,
            Num 0, Num 0, Num 0, Num 0, Num 0, Num 0, Num 0, Num 2, Num 0, Num 0,
            Num 0, Num 0, Num 7, Num 10, Num 0, Num 0, Num 7, Num 0, Num 0, Num 0])"
    (is "_ = Some ?u")
    by blast
  have l: "length reply_pkt = 214" "214 \<le> length reply_pkt" "take 8 reply_pkt = ArtNet_header"
    "reply_pkt ! 8 = 0" "reply_pkt ! 9 = 0x21"
    "take 4 (drop 174 reply_pkt) = [0x80, 0x80, 0x80, 0x80]"
    "take 4 (drop 178 reply_pkt) = [0xFF, 0xFF, 0xFF, 0x00]"
    "take 4 (drop 186 reply_pkt) = [1, 2, 3, 4]"
    by (simp_all add: reply_pkt_def ArtNet_header_def)
  have i: "\<not> list_ex (\<lambda>i. ip i = dotted 10 0 0 7) [ifc0]"
    by (simp add: ifc0_def dotted_def)
  have mac: "take (207 - 201) (drop 201 reply_pkt) = [2, 0, 0, 0, 0, 7]"
    by (simp add: reply_pkt_def ArtNet_header_def)
  have upto: "[0..3] = [0, 1, 2, 3::int]" by (simp add: upto.simps)
  let ?p = "\<lambda>k u. \<lparr>p_net = 0, p_subnet = 10504, p_universe = u, p_ip = dotted 10 0 0 7,
                     portNumber = k, isGood = False\<rparr>"
  have a: "parse_ports (make_apr reply_pkt
                          \<lparr>address = dotted 10 0 0 7, family = ''IPv4'', size = length reply_pkt\<rparr> ?u)
           = \<lparr>a_ip = dotted 10 0 0 7, a_mac = [2, 0, 0, 0, 0, 7], a_shortName = strip_nul sn,
              a_longName = strip_nul ln, nodeReport = strip_nul nr, numPorts = 4,
              portTypes = - 2139062144, goodInput = - 256, goodOutput = 0, swIn = 16909060,
              swOut = 0, a_net = 0, subNet = 10504, bindIndex = 0,
              a_inPorts = [?p 0 0, ?p 1 1, ?p 2 0, ?p 3 2], a_outPorts = []\<rparr>"
    unfolding make_apr_def mac
    by (simp add: parse_ports_def parse_port_def be32_def upto
          js_shl_def js_shr_def js_and_def js_or_def ToInt32_def Let_def)
  let ?n = "\<lparr>n_mac = [2, 0, 0, 0, 0, 7], n_ip = Some (dotted 10 0 0 7), shortName = strip_nul sn,
             longName = strip_nul ln, status = strip_nul nr, lastUpdate = 0,
             inPorts = [(0, ?p 0 0), (1, ?p 1 1), (2, ?p 2 0), (3, ?p 3 2)], outPorts = []\<rparr>"
  have c: "isCompatibleWithLocalInterfaces [ifc0] (dotted 10 0 0 7)"
    by (simp add: isCompatibleWithLocalInterfaces_def contains_ifc0)
  have "on_message [ifc0] 0 engine0 reply_pkt (dotted 10 0 0 7)
        = Inr (engine0\<lparr>nodes := [([2, 0, 0, 0, 0, 7], ?n)], node_updates := [?n]\<rparr>)"
    unfolding dataParser_ArtPollReply [OF l(2-5) u i] a
    by (simp add: upsertNode_def updateFromArtPollReply_def Node_new_def updatePorts_def c
          stringify_def engine0_def Let_def)
  then show ?thesis
    using l by auto
qed

text \<open>
  The encoder and the decoder of the file do not agree either. For two receivers on the
  universes 1 and 2, \<open>createPacket\<close> writes both good flags into the first byte of
  the good-input array and both universes into the first byte of the input-universe
  array, port 0 in the low nibble. The engine on the host 10.0.0.9 decodes this reply
  as port 0 on universe 2 and port 1 on universe 1, neither of them good.
\<close>

lemma upto03: "[0..3] = [0, 1, 2, 3::int]" by (simp add: upto.simps)

lemma dec0: "dec 0 = ''0''"
  by code_simp

lemma createPacket_own_reply:
  "createPacket engine0 ifc0 [AReceiver (receiver_on 0 0 1), AReceiver (receiver_on 0 0 2)] 0
     = Inr own_reply"
  unfolding createPacket_def Let_def
  apply (simp add: upto03 add_port_def receiver_on_def receiver_opts_def
        js_shl_def js_shr_def js_and_def js_or_def ToInt32_def swap16_def)
  apply (simp add: engine0_def opts0_def stateString_def dec0 slice_last_def ifc0_def octets_def dotted_def
      Pack_def ArtPollReplyFormat_def enS_def clampv_def own_reply_def ArtNet_header_def
      del: dec.simps)
  done


lemma own_reply_unpacked:
  "\<exists>sn ln nr. Unpack ArtPollReplyFormat own_reply 0 =
     Some ([Str ''Art-Net'', Num 0, Num 33, Num 10, Num 0, Num 0, Num 1, Num 6454,
            Num 1, Num 0, Num 0, Num 0, Num 0, Num 208, Num 0, Str sn, Str ln, Str nr,
            Num 2, Num 0, Num 0, Num 128, Num 128, Num 3, Num 0, Num 0,
            Num 0, Num 0, Num 0, Num 0, Num 0, Num 33, Num 0, Num 0, Num 0, Num 0,
            Num 0, Num 0, Num 0, Num 0, Num 0, Num 0, Num 0, Num 2, Num 0, Num 0,
            Num 0, Num 0, Num 1, Num 10, Num 0, Num 0, Num 1, Num 1, Num 14, Num 0])"
  by (simp add: own_reply_def ArtNet_header_def ArtPollReplyFormat_def deS_def ArtNet_chars)

lemma contains_ifc9: "contains (netmask ifc9) (dotted 10 0 0 1)"
  by (simp add: ifc9_def contains_def Netmask_of_def maskLong_def dotted_def mask_eq_exp_minus_1)

lemma own_reply_not_read_back:
  "createPacket engine0 ifc0 [AReceiver (receiver_on 0 0 1), AReceiver (receiver_on 0 0 2)] 0
     = Inr own_reply
   \<and> (\<exists>n. on_message [ifc9] 0 engine0 own_reply (dotted 10 0 0 1) =
             Inr (engine0\<lparr>nodes := [([2, 0, 0, 0, 0, 1], n)], node_updates := [n]\<rparr>)
          \<and> map (\<lambda>(k, p). (k, p_universe p, isGood p)) (inPorts n)
              = [(0, 2, False), (1, 1, False)])"
proof -
  from own_reply_unpacked obtain sn ln nr where
    u: "Unpack ArtPollReplyFormat own_reply 0 =
     Some ([Str ''Art-Net'', Num 0, Num 33, Num 10, Num 0, Num 0, Num 1, Num 6454,
            Num 1, Num 0, Num 0, Num 0, Num 0, Num 208, Num 0, Str sn, Str ln, Str nr,
            Num 2, Num 0, Num 0, Num 128, Num 128, Num 3, Num 0, Num 0,
            Num 0, Num 0, Num 0, Num 0, Num 0, Num 33, Num 0, Num 0, Num 0, Num 0,
            Num 0, Num 0, Num 0, Num 0, Num 0, Num 0, Num 0, Num 2, Num 0, Num 0,
            Num 0, Num 0, Num 1, Num 10, Num 0, Num 0, Num 1, Num 1, Num 14, Num 0])"
    (is "_ = Some ?u")
    by blast
  have l: "214 \<le> length own_reply" "take 8 own_reply = ArtNet_header"
    "own_reply ! 8 = 0" "own_reply ! 9 = 0x21"
    by (simp_all add: own_reply_def ArtNet_header_def)
  have i: "\<not> list_ex (\<lambda>i. ip i = dotted 10 0 0 1) [ifc9]"
    by (simp add: ifc9_def dotted_def)
  have mac: "take (207 - 201) (drop 201 own_reply) = [2, 0, 0, 0, 0, 1]"
    by (simp add: own_reply_def ArtNet_header_def)
  let ?p = "\<lambda>k u. \<lparr>p_net = 0, p_subnet = 0, p_universe = u, p_ip = dotted 10 0 0 1,
                     portNumber = k, isGood = False\<rparr>"
  have a: "parse_ports (make_apr own_reply
                          \<lparr>address = dotted 10 0 0 1, family = ''IPv4'', size = length own_reply\<rparr> ?u)
           = \<lparr>a_ip = dotted 10 0 0 1, a_mac = [2, 0, 0, 0, 0, 1], a_shortName = strip_nul sn,
              a_longName = strip_nul ln, nodeReport = strip_nul nr, numPorts = 2,
              portTypes = 32896, goodInput = 50331648, goodOutput = 0, swIn = 553648128,
              swOut = 0, a_net = 0, subNet = 0, bindIndex = 0,
              a_inPorts = [?p 0 2, ?p 1 1], a_outPorts = []\<rparr>"
    unfolding make_apr_def mac
    by (simp add: parse_ports_def parse_port_def be32_def upto.simps
          js_shl_def js_shr_def js_and_def js_or_def ToInt32_def Let_def)
  let ?n = "\<lparr>n_mac = [2, 0, 0, 0, 0, 1], n_ip = Some (dotted 10 0 0 1), shortName = strip_nul sn,
             longName = strip_nul ln, status = strip_nul nr, lastUpdate = 0,
             inPorts = [(0, ?p 0 2), (1, ?p 1 1)], outPorts = []\<rparr>"
  have c: "isCompatibleWithLocalInterfaces [ifc9] (dotted 10 0 0 1)"
    using contains_ifc9 by (simp add: isCompatibleWithLocalInterfaces_def)
  have "on_message [ifc9] 0 engine0 own_reply (dotted 10 0 0 1)
        = Inr (engine0\<lparr>nodes := [([2, 0, 0, 0, 0, 1], ?n)], node_updates := [?n]\<rparr>)"
    unfolding dataParser_ArtPollReply [OF l u i] a
    using c
    by (simp add: upsertNode_def updateFromArtPollReply_def Node_new_def updatePorts_def
          stringify_def engine0_def Let_def)
  then show ?thesis
    using createPacket_own_reply by auto
qed

section \<open>Nodes: updating from an ArtPollReply\<close>





















text \<open>The node \<open>node7\<close> is what the first record \<open>apr7\<close> makes of a new node.\<close>

lemma node7_constructed:
  "updateFromArtPollReply [ifc0] 1000 (Node_new [2, 0, 0, 0, 0, 7]) apr7 = (Some True, node7)"
  using contains_ifc0
  by (simp add: updateFromArtPollReply_def node7_def apr7_def stringify_def updatePorts_def
        isCompatibleWithLocalInterfaces_def port7_def Node_new_def Let_def)


end
